theory Spec2Isabelle
  imports Main
begin

section \<open>Python values as the analysis pipeline sees them\<close>

text \<open>
  The two modules of PyBeam QA that are verified here, \<^verbatim>\<open>core/analysis/ct.py\<close> and
  \<^verbatim>\<open>ui/linac_qa/ct_widgets.py\<close>, read attributes of objects that pylinac hands
  back, format floats into text and handle the exceptions raised on the way. The embedding
  therefore starts with a small model of the Python values involved: exceptions,
  floats, dictionaries and objects with attributes.
\<close>

subsection \<open>Exceptions and \<^verbatim>\<open>traceback.format_exception_only\<close>\<close>

text \<open>
  \<open>Raised cls ls l\<close> is an exception raised inside a library call (pylinac, zipfile,
  matplotlib): its class name and the strings \<^verbatim>\<open>traceback.format_exception_only\<close>
  returns for it, \<open>ls\<close> all but the last and \<open>l\<close> the last, so that the list is never
  empty, as the library documents. The other constructors are the exceptions the
  interpreter itself raises in the modelled code, formatted in the wording of
  CPython 3.11 and later. All of these are instances of \<^verbatim>\<open>Exception\<close>.
  \<open>RaisedBase cls ls l\<close> is an exception raised inside a library call whose class derives
  from \<^verbatim>\<open>BaseException\<close> and not from \<^verbatim>\<open>Exception\<close> (\<^verbatim>\<open>SystemExit\<close>,
  \<^verbatim>\<open>KeyboardInterrupt\<close>, \<^verbatim>\<open>GeneratorExit\<close>), with the strings it is formatted to.
\<close>

datatype exn =
    Raised string "string list" string
  | RaisedBase string "string list" string
  | AttributeError string string
  | TypeError string
  | ValueError string
  | UnboundLocalError string
  | NameError string
  | IndexError string

definition quoted :: "string \<Rightarrow> string" where
  "quoted s = [CHR 0x27] @ s @ [CHR 0x27]"

definition newline :: string where
  "newline = [CHR 0x0A]"

fun format_exception_only :: "exn \<Rightarrow> string list" where
  "format_exception_only (Raised cls ls l) = ls @ [l]"
| "format_exception_only (RaisedBase cls ls l) = ls @ [l]"
| "format_exception_only (AttributeError ty a) =
     [''AttributeError: '' @ quoted ty @ '' object has no attribute '' @ quoted a @ newline]"
| "format_exception_only (TypeError msg) = [''TypeError: '' @ msg @ newline]"
| "format_exception_only (ValueError msg) = [''ValueError: '' @ msg @ newline]"
| "format_exception_only (UnboundLocalError v) =
     [''UnboundLocalError: cannot access local variable '' @ quoted v @
      '' where it is not associated with a value'' @ newline]"
| "format_exception_only (NameError v) =
     [''NameError: name '' @ quoted v @ '' is not defined'' @ newline]"
| "format_exception_only (IndexError msg) = [''IndexError: '' @ msg @ newline]"

text \<open>
  \<^verbatim>\<open>isinstance(err, Exception)\<close>: what a clause \<^verbatim>\<open>except Exception\<close> catches.
\<close>

fun is_Exception :: "exn \<Rightarrow> bool" where
  "is_Exception (RaisedBase cls ls l) = False"
| "is_Exception err = True"

text \<open>\<^verbatim>\<open>xs[-1]\<close>: the last element, IndexError on the empty list.\<close>

definition py_last :: "'a list \<Rightarrow> exn + 'a" where
  "py_last xs = (if xs = [] then Inl (IndexError ''list index out of range'') else Inr (last xs))"

text \<open>
  Sequencing: the statement after a call runs only when the call did not raise.
\<close>

definition and_then :: "exn + 'a \<Rightarrow> ('a \<Rightarrow> exn + 'b) \<Rightarrow> exn + 'b" where
  "and_then r f = (case r of Inl err \<Rightarrow> Inl err | Inr x \<Rightarrow> f x)"

subsection \<open>Floats and the format specification \<^verbatim>\<open>.Nf\<close>\<close>

text \<open>
  A float is kept in sign-magnitude form, as IEEE 754 has it: \<open>Finite s m e\<close> is the
  number \<open>(-1)^s * m * 2^e\<close> (\<^verbatim>\<open>-0.0\<close> is \<open>Finite True 0 0\<close>), so every finite double is
  represented exactly. CPython formats a float with \<^verbatim>\<open>f"{x:.Nf}"\<close> by rounding its exact
  value correctly to \<open>N\<close> decimals, ties to even, and keeps the sign of the float. An
  \<^verbatim>\<open>int\<close> is converted to the float of the same value before it is formatted, and is
  modelled as that float.
\<close>

datatype pyfloat = Finite bool nat int | Infinity bool | NaN

definition digit_char :: "nat \<Rightarrow> char" where
  "digit_char d = ''0123456789'' ! d"

function str_nat :: "nat \<Rightarrow> string" where
  "str_nat n = (if n < 10 then [digit_char n] else str_nat (n div 10) @ [digit_char (n mod 10)])"
  by pat_completeness auto
termination
  by (relation "measure id") auto

declare str_nat.simps [simp del]

definition round_half_even :: "nat \<Rightarrow> nat \<Rightarrow> nat" where
  "round_half_even n d =
     (let q = n div d; r = n mod d
      in if 2 * r < d then q
         else if d < 2 * r then q + 1
         else if even q then q else q + 1)"

text \<open>\<open>scaled p m e\<close> is \<open>m * 2^e * 10^p\<close> rounded to an integer.\<close>

definition scaled :: "nat \<Rightarrow> nat \<Rightarrow> int \<Rightarrow> nat" where
  "scaled p m e =
     (if 0 \<le> e then m * 2 ^ nat e * 10 ^ p
      else round_half_even (m * 10 ^ p) (2 ^ nat (- e)))"

definition zero_pad :: "nat \<Rightarrow> string \<Rightarrow> string" where
  "zero_pad w s = replicate (w - length s) (CHR ''0'') @ s"

definition sign_str :: "bool \<Rightarrow> string" where
  "sign_str s = (if s then ''-'' else '''')"

fun format_f :: "nat \<Rightarrow> pyfloat \<Rightarrow> string" where
  "format_f p (Finite s m e) =
     (let n = scaled p m e
      in sign_str s @ str_nat (n div 10 ^ p) @
         (if p = 0 then '''' else ''.'' @ zero_pad p (str_nat (n mod 10 ^ p))))"
| "format_f p (Infinity s) = sign_str s @ ''inf''"
| "format_f p NaN = ''nan''"

text \<open>The digits after the decimal point of a rendered number.\<close>

definition fraction_digits :: "string \<Rightarrow> string" where
  "fraction_digits s = drop 1 (dropWhile (\<lambda>c. c \<noteq> CHR ''.'') s)"

subsection \<open>Objects, dictionaries, attribute access\<close>

text \<open>
  A dictionary is the list of its items in insertion order, the order in which Python
  iterates it. A key is a \<^verbatim>\<open>str\<close> (\<open>StrKey\<close>) or some other hashable, given by its type
  name and its \<^verbatim>\<open>str()\<close> rendering (\<open>ObjKey\<close>). An object is its class name and its data
  attributes; a method of a library object that the code calls is an attribute
  \<open>PyMethod r\<close>, where \<open>r\<close> is what the call does: raise or return a value.
\<close>

datatype pykey = StrKey string | ObjKey string string

datatype pyval =
    PyFloat pyfloat
  | PyNone
  | PyStr string
  | PyDict "(pykey \<times> pyval) list"
  | PyObject string "(string \<times> pyval) list"
  | PyMethod "exn + pyval"

fun key_str :: "pykey \<Rightarrow> string" where
  "key_str (StrKey s) = s"
| "key_str (ObjKey ty s) = s"

fun type_name :: "pyval \<Rightarrow> string" where
  "type_name (PyFloat f) = ''float''"
| "type_name PyNone = ''NoneType''"
| "type_name (PyStr s) = ''str''"
| "type_name (PyDict kvs) = ''dict''"
| "type_name (PyObject cls attrs) = cls"
| "type_name (PyMethod r) = ''method''"

text \<open>
  \<^verbatim>\<open>obj.name\<close>. None of the attribute names the code reads (\<^verbatim>\<open>hu_linearity\<close>,
  \<^verbatim>\<open>value\<close>, \<^verbatim>\<open>ctp404\<close>, \<^verbatim>\<open>rois\<close>, ...) is an attribute of a float, a string, a
  dictionary, a method or \<^verbatim>\<open>None\<close>, so only an object can have them.
\<close>

fun getattr :: "pyval \<Rightarrow> string \<Rightarrow> exn + pyval" where
  "getattr (PyObject cls attrs) a =
     (case map_of attrs a of
        Some v \<Rightarrow> Inr v
      | None \<Rightarrow> Inl (AttributeError cls a))"
| "getattr v a = Inl (AttributeError (type_name v) a)"

text \<open>\<^verbatim>\<open>hasattr(obj, name)\<close> is \<^verbatim>\<open>getattr\<close> that catches AttributeError.\<close>

definition hasattr :: "pyval \<Rightarrow> string \<Rightarrow> bool" where
  "hasattr v a = (case getattr v a of Inl e \<Rightarrow> False | Inr x \<Rightarrow> True)"

text \<open>\<^verbatim>\<open>obj.name(...)\<close> for a library method.\<close>

definition call_method :: "pyval \<Rightarrow> string \<Rightarrow> exn + pyval" where
  "call_method obj name =
     (case getattr obj name of
        Inl e \<Rightarrow> Inl e
      | Inr (PyMethod r) \<Rightarrow> r
      | Inr v \<Rightarrow> Inl (TypeError (quoted (type_name v) @ '' object is not callable'')))"

text \<open>
  \<^verbatim>\<open>d.items()\<close>, \<^verbatim>\<open>d.values()\<close>, \<^verbatim>\<open>d.keys()\<close>: only a dictionary has the mapping methods;
  on any other value the attribute lookup fails.
\<close>

fun py_items :: "pyval \<Rightarrow> exn + (pykey \<times> pyval) list" where
  "py_items (PyDict kvs) = Inr kvs"
| "py_items v = Inl (AttributeError (type_name v) ''items'')"

fun py_values :: "pyval \<Rightarrow> exn + pyval list" where
  "py_values (PyDict kvs) = Inr (map snd kvs)"
| "py_values v = Inl (AttributeError (type_name v) ''values'')"

fun py_keys :: "pyval \<Rightarrow> exn + pykey list" where
  "py_keys (PyDict kvs) = Inr (map fst kvs)"
| "py_keys v = Inl (AttributeError (type_name v) ''keys'')"

text \<open>
  \<^verbatim>\<open>f"{v:.Nf}"\<close>, that is \<^verbatim>\<open>format(v, ".Nf")\<close>: a float is formatted, a \<^verbatim>\<open>str\<close> rejects the
  format code with ValueError, every other value of the model rejects a non-empty
  format specification with TypeError.
\<close>

fun format_spec_f :: "nat \<Rightarrow> pyval \<Rightarrow> exn + string" where
  "format_spec_f p (PyFloat f) = Inr (format_f p f)"
| "format_spec_f p (PyStr s) =
     Inl (ValueError (''Unknown format code '' @ quoted ''f'' @ '' for object of type '' @ quoted ''str''))"
| "format_spec_f p v =
     Inl (TypeError (''unsupported format string passed to '' @ type_name v @ ''.__format__''))"

section \<open>\<^verbatim>\<open>core/analysis/ct.py\<close>\<close>

subsection \<open>The phantom enumeration and the analyzer classes\<close>

datatype PHANTOM = CATPHAN_503 | CATPHAN_504 | CATPHAN_600 | CATPHAN_604

text \<open>The \<^verbatim>\<open>.value\<close> of an enumeration member.\<close>

fun PHANTOM_value :: "PHANTOM \<Rightarrow> string" where
  "PHANTOM_value CATPHAN_503 = ''CatPhan 503''"
| "PHANTOM_value CATPHAN_504 = ''CatPhan 504''"
| "PHANTOM_value CATPHAN_600 = ''CatPhan 600''"
| "PHANTOM_value CATPHAN_604 = ''CatPhan 604''"

text \<open>The four pylinac classes whose \<^verbatim>\<open>from_zip\<close> the worker calls.\<close>

datatype CatPhan = CatPhan503 | CatPhan504 | CatPhan600 | CatPhan604

text \<open>
  The worker's \<^verbatim>\<open>phantom_type\<close> argument is annotated \<^verbatim>\<open>PHANTOM\<close>, which Python does not
  enforce: \<open>Member k\<close> is a member of the enumeration, \<open>NonMember ty v eq\<close> any other
  object, given by its type name, by the \<^verbatim>\<open>str()\<close> rendering of its attribute
  \<^verbatim>\<open>value\<close> when it has one, and by what the test \<^verbatim>\<open>if obj == PHANTOM.k\<close> does with it
  for each member \<open>k\<close>: raise, or take the branch or not. The operator \<^verbatim>\<open>==\<close> asks the
  left operand's \<^verbatim>\<open>__eq__\<close> first, so the outcome is the object's to decide (a
  \<^verbatim>\<open>str\<close> is equal to no member; \<^verbatim>\<open>unittest.mock.ANY\<close> is equal to every member; the
  truth value of a comparison with a numpy array may raise).
\<close>

datatype phantom_type =
    Member PHANTOM
  | NonMember string "string option" "PHANTOM \<Rightarrow> exn + bool"

text \<open>
  The test \<^verbatim>\<open>self._phantom_type == PHANTOM.k\<close> of an \<^verbatim>\<open>if\<close>. A member of a plain
  \<^verbatim>\<open>enum.Enum\<close> is equal to itself only.
\<close>

fun py_eq :: "phantom_type \<Rightarrow> PHANTOM \<Rightarrow> exn + bool" where
  "py_eq (Member k) k' = Inr (k = k')"
| "py_eq (NonMember ty v eq) k' = eq k'"

text \<open>
  Lines 255-265: the \<^verbatim>\<open>if\<close>/\<^verbatim>\<open>elif\<close> chain that picks the class to load with. The
  comparisons run in the order of the chain, each one only when the ones before it
  were false, and the \<^verbatim>\<open>else\<close> branch picks \<^verbatim>\<open>CatPhan504\<close>.
\<close>

definition resolve :: "phantom_type \<Rightarrow> exn + CatPhan" where
  "resolve phantom_type =
     and_then (py_eq phantom_type CATPHAN_503) (\<lambda>is_503.
       if is_503 then Inr CatPhan503
       else and_then (py_eq phantom_type CATPHAN_504) (\<lambda>is_504.
         if is_504 then Inr CatPhan504
         else and_then (py_eq phantom_type CATPHAN_600) (\<lambda>is_600.
           if is_600 then Inr CatPhan600
           else and_then (py_eq phantom_type CATPHAN_604) (\<lambda>is_604.
             if is_604 then Inr CatPhan604
             else Inr CatPhan504))))"

text \<open>\<^verbatim>\<open>self._phantom_type.value\<close>, as the f-string of line 282 renders it.\<close>

fun phantom_type_value :: "phantom_type \<Rightarrow> exn + string" where
  "phantom_type_value (Member k) = Inr (PHANTOM_value k)"
| "phantom_type_value (NonMember ty None eq) = Inl (AttributeError ty ''value'')"
| "phantom_type_value (NonMember ty (Some s) eq) = Inr s"

subsection \<open>The library behind the worker\<close>

text \<open>
  What pylinac and the installation contribute to a run: \<open>from_zip cls path\<close> loads an
  archive with one of the four classes and raises or returns the phantom object;
  \<open>phantom_analyze\<close> is \<^verbatim>\<open>phantom.analyze()\<close>, which raises or leaves the phantom
  analysed; \<open>HAS_PYQTGRAPH\<close> is the module flag set by the guarded import.
\<close>

record env =
  from_zip :: "CatPhan \<Rightarrow> string \<Rightarrow> exn + pyval"
  phantom_analyze :: "pyval \<Rightarrow> exn + pyval"
  HAS_PYQTGRAPH :: bool

text \<open>Lines 255-265 with the call: the class is picked, then its \<^verbatim>\<open>from_zip\<close> runs.\<close>

definition load_phantom :: "env \<Rightarrow> phantom_type \<Rightarrow> string \<Rightarrow> exn + pyval" where
  "load_phantom env phantom_type path =
     and_then (resolve phantom_type) (\<lambda>cls. from_zip env cls path)"

subsection \<open>\<^verbatim>\<open>QCTAnalysis\<close>\<close>

text \<open>
  A plot of the pyqtgraph layout widget: name, title, cell of the grid, axis labels,
  the items drawn into it and the ticks set on its bottom axis. The items are the
  dashed reference diagonal over \<^verbatim>\<open>np.linspace(min(x_data), max(x_data), 100)\<close> (kept
  as \<open>x_data\<close>), the measured points, the bar graph, the MTF curve, a horizontal
  reference line (level and colour) and the low-contrast points.
\<close>

datatype plot_item =
    ExpectedLine "pyval list"
  | MeasuredPoints "pyval list" "pyval list"
  | BarGraph "nat list" "pyval list"
  | MtfCurve pyval pyval
  | HLine string string
  | ContrastPoints "nat list" "pyval list"

record plot =
  plot_name :: string
  plot_title :: string
  plot_cell :: "nat \<times> nat"
  label_left :: string
  label_bottom :: string
  plot_items :: "plot_item list"
  bottom_ticks :: "(nat \<times> pykey) list option"

text \<open>The attributes \<^verbatim>\<open>_phantom\<close> and \<^verbatim>\<open>analyzed_image_plot_widget\<close> of the wrapper.\<close>

record QCTAnalysis =
  qa_phantom :: pyval
  analyzed_image_plot_widget :: "plot list option"

text \<open>\<^verbatim>\<open>QCTAnalysis.__init__\<close>\<close>

definition QCTAnalysis_init :: "env \<Rightarrow> pyval \<Rightarrow> QCTAnalysis" where
  "QCTAnalysis_init env phantom =
     \<lparr>qa_phantom = phantom,
      analyzed_image_plot_widget = (if HAS_PYQTGRAPH env then Some [] else None)\<rparr>"

subsection \<open>\<^verbatim>\<open>QCTAnalysis.get_publishable_plots\<close>\<close>

text \<open>
  What one \<^verbatim>\<open>io.BytesIO\<close> buffer of the returned list holds: the figure that
  \<^verbatim>\<open>plt.savefig\<close> wrote into it, with the data the code handed to \<^verbatim>\<open>ax.bar\<close>.
\<close>

datatype publishable_plot =
    LinearityPdf
  | UniformityPdf "pykey list" "pyval list"
  | MtfPdf
  | LowContrastPdf "pykey list" "pyval list"

text \<open>
  \<^verbatim>\<open>import matplotlib.pyplot as plt\<close> is a statement of the function body, so \<^verbatim>\<open>plt\<close> is a
  local variable of \<^verbatim>\<open>get_publishable_plots\<close>; the module has no global of that name.
  The state of the function is the list \<^verbatim>\<open>plots\<close> and whether \<^verbatim>\<open>plt\<close> is bound yet.
  Reading \<^verbatim>\<open>plt\<close> before the import has run raises UnboundLocalError. The calls into
  matplotlib themselves (\<^verbatim>\<open>subplots\<close>, \<^verbatim>\<open>bar\<close>, \<^verbatim>\<open>savefig\<close>, \<^verbatim>\<open>close\<close>) are taken to
  succeed.
\<close>

type_synonym plots_state = "publishable_plot list \<times> bool"

definition read_plt :: "bool \<Rightarrow> exn + unit" where
  "read_plt bound = (if bound then Inr () else Inl (UnboundLocalError ''plt''))"

text \<open>Lines 166-173.\<close>

definition publish_ctp404 :: "pyval \<Rightarrow> plots_state \<Rightarrow> exn + plots_state" where
  "publish_ctp404 phantom state =
     (if hasattr phantom ''ctp404'' then
        and_then (getattr phantom ''ctp404'') (\<lambda>ctp404.
        and_then (call_method ctp404 ''plot_linearity'') (\<lambda>drawn.
          Inr (fst state @ [LinearityPdf], True)))
      else Inr state)"

text \<open>\<^verbatim>\<open>[roi.pixel_value for roi in ...]\<close>\<close>

fun pixel_values :: "pyval list \<Rightarrow> exn + pyval list" where
  "pixel_values [] = Inr []"
| "pixel_values (roi # rest) =
     and_then (getattr roi ''pixel_value'') (\<lambda>v.
     and_then (pixel_values rest) (\<lambda>vs. Inr (v # vs)))"

text \<open>Lines 176-194.\<close>

definition publish_ctp486 :: "pyval \<Rightarrow> plots_state \<Rightarrow> exn + plots_state" where
  "publish_ctp486 phantom state =
     (if hasattr phantom ''ctp486'' then
        and_then (read_plt (snd state)) (\<lambda>subplots.
        and_then (getattr phantom ''ctp486'') (\<lambda>ctp486.
        and_then (call_method ctp486 ''results_data'') (\<lambda>data.
        and_then (getattr ctp486 ''rois'') (\<lambda>rois.
        and_then (py_keys rois) (\<lambda>roi_names.
        and_then (py_values rois) (\<lambda>rois_values.
        and_then (pixel_values rois_values) (\<lambda>roi_values.
          Inr (fst state @ [UniformityPdf roi_names roi_values], snd state))))))))
      else Inr state)"

text \<open>Lines 197-203: \<^verbatim>\<open>plot_mtf\<close> is called first, then \<^verbatim>\<open>plt.savefig\<close> reads \<^verbatim>\<open>plt\<close>.\<close>

definition publish_ctp528 :: "pyval \<Rightarrow> plots_state \<Rightarrow> exn + plots_state" where
  "publish_ctp528 phantom state =
     (if hasattr phantom ''ctp528'' then
        and_then (getattr phantom ''ctp528'') (\<lambda>ctp528.
        and_then (call_method ctp528 ''plot_mtf'') (\<lambda>drawn.
        and_then (read_plt (snd state)) (\<lambda>savefig.
          Inr (fst state @ [MtfPdf], snd state))))
      else Inr state)"

text \<open>\<^verbatim>\<open>str.lower\<close> on the letters of ASCII, and the test \<^verbatim>\<open>sub in s\<close>.\<close>

definition lower_char :: "char \<Rightarrow> char" where
  "lower_char c =
     (case map_of (zip ''ABCDEFGHIJKLMNOPQRSTUVWXYZ'' ''abcdefghijklmnopqrstuvwxyz'') c of
        Some l \<Rightarrow> l
      | None \<Rightarrow> c)"

fun starts_with :: "string \<Rightarrow> string \<Rightarrow> bool" where
  "starts_with s [] = True"
| "starts_with [] (c # sub) = False"
| "starts_with (d # s) (c # sub) = (d = c \<and> starts_with s sub)"

fun contains :: "string \<Rightarrow> string \<Rightarrow> bool" where
  "contains [] sub = (sub = [])"
| "contains (d # s) sub = (starts_with (d # s) sub \<or> contains s sub)"

text \<open>\<^verbatim>\<open>name.lower()\<close>: only a \<^verbatim>\<open>str\<close> key has the method.\<close>

fun key_lower :: "pykey \<Rightarrow> exn + string" where
  "key_lower (StrKey s) = Inr (map lower_char s)"
| "key_lower (ObjKey ty s) = Inl (AttributeError ty ''lower'')"

text \<open>Lines 211-216.\<close>

fun contrast_loop ::
  "(pykey \<times> pyval) list \<Rightarrow> pyval list \<Rightarrow> pykey list \<Rightarrow> exn + pyval list \<times> pykey list" where
  "contrast_loop [] contrasts roi_labels = Inr (contrasts, roi_labels)"
| "contrast_loop ((name, roi) # rest) contrasts roi_labels =
     and_then (key_lower name) (\<lambda>lowered.
       if \<not> contains lowered ''bg'' then
         and_then (getattr roi ''contrast'') (\<lambda>c.
           contrast_loop rest (contrasts @ [c]) (roi_labels @ [name]))
       else contrast_loop rest contrasts roi_labels)"

text \<open>Lines 206-227.\<close>

definition publish_ctp515 :: "pyval \<Rightarrow> plots_state \<Rightarrow> exn + plots_state" where
  "publish_ctp515 phantom state =
     (if hasattr phantom ''ctp515'' then
        and_then (read_plt (snd state)) (\<lambda>subplots.
        and_then (getattr phantom ''ctp515'') (\<lambda>ctp515.
        and_then (getattr ctp515 ''rois'') (\<lambda>rois.
        and_then (py_items rois) (\<lambda>items.
        and_then (contrast_loop items [] []) (\<lambda>collected.
          Inr (fst state @ [LowContrastPdf (snd collected) (fst collected)], snd state))))))
      else Inr state)"

definition get_publishable_plots :: "QCTAnalysis \<Rightarrow> exn + publishable_plot list" where
  "get_publishable_plots self =
     and_then (publish_ctp404 (qa_phantom self) ([], False)) (\<lambda>state1.
     and_then (publish_ctp486 (qa_phantom self) state1) (\<lambda>state2.
     and_then (publish_ctp528 (qa_phantom self) state2) (\<lambda>state3.
     and_then (publish_ctp515 (qa_phantom self) state3) (\<lambda>state4.
       Inr (fst state4)))))"

subsection \<open>\<^verbatim>\<open>QCTAnalysis.qplot_analyzed_image\<close>\<close>

text \<open>\<^verbatim>\<open>addPlot\<close> followed by the two \<^verbatim>\<open>setLabel\<close> calls.\<close>

definition addPlot :: "string \<Rightarrow> string \<Rightarrow> nat \<times> nat \<Rightarrow> string \<Rightarrow> string \<Rightarrow> plot" where
  "addPlot name title cell left bottom =
     \<lparr>plot_name = name, plot_title = title, plot_cell = cell, label_left = left,
      label_bottom = bottom, plot_items = [], bottom_ticks = None\<rparr>"

text \<open>Lines 101-104.\<close>

fun linearity_data_loop ::
  "(pykey \<times> pyval) list \<Rightarrow> pyval list \<Rightarrow> pyval list \<Rightarrow> exn + pyval list \<times> pyval list" where
  "linearity_data_loop [] x_data y_data = Inr (x_data, y_data)"
| "linearity_data_loop ((name, roi) # rest) x_data y_data =
     (if name \<noteq> StrKey ''background'' \<and> name \<noteq> StrKey ''air'' then
        and_then (getattr roi ''nominal_val'') (\<lambda>x.
        and_then (getattr roi ''pixel_value'') (\<lambda>y.
          linearity_data_loop rest (x_data @ [x]) (y_data @ [y])))
      else linearity_data_loop rest x_data y_data)"

text \<open>
  Lines 96-113. \<^verbatim>\<open>min(x_data)\<close> raises ValueError on the empty list; on a list that is
  not empty the comparison of the nominal values and \<^verbatim>\<open>np.linspace\<close> are taken to
  succeed.
\<close>

definition qplot_ctp404 :: "pyval \<Rightarrow> plot \<Rightarrow> exn + plot" where
  "qplot_ctp404 phantom hu_linearity_plot =
     (if hasattr phantom ''ctp404'' then
        and_then (getattr phantom ''ctp404'') (\<lambda>ctp404.
          if hasattr ctp404 ''rois'' then
            and_then (getattr ctp404 ''rois'') (\<lambda>rois.
            and_then (py_items rois) (\<lambda>items.
            and_then (linearity_data_loop items [] []) (\<lambda>collected.
              if fst collected = [] then Inl (ValueError ''min() arg is an empty sequence'')
              else
                Inr (hu_linearity_plot
                       \<lparr>plot_items :=
                          plot_items hu_linearity_plot @
                          [ExpectedLine (fst collected),
                           MeasuredPoints (fst collected) (snd collected)]\<rparr>))))
          else Inr hu_linearity_plot)
      else Inr hu_linearity_plot)"

text \<open>Lines 120-122.\<close>

fun uniformity_data_loop ::
  "(pykey \<times> pyval) list \<Rightarrow> pykey list \<Rightarrow> pyval list \<Rightarrow> exn + pykey list \<times> pyval list" where
  "uniformity_data_loop [] positions vals = Inr (positions, vals)"
| "uniformity_data_loop ((name, roi) # rest) positions vals =
     and_then (getattr roi ''pixel_value'') (\<lambda>v.
       uniformity_data_loop rest (positions @ [name]) (vals @ [v]))"

text \<open>Lines 116-129.\<close>

definition qplot_ctp486 :: "pyval \<Rightarrow> plot \<Rightarrow> exn + plot" where
  "qplot_ctp486 phantom uniformity_plot =
     (if hasattr phantom ''ctp486'' then
        and_then (getattr phantom ''ctp486'') (\<lambda>ctp486.
          if hasattr ctp486 ''rois'' then
            and_then (getattr ctp486 ''rois'') (\<lambda>rois.
            and_then (py_items rois) (\<lambda>items.
            and_then (uniformity_data_loop items [] []) (\<lambda>collected.
              Inr (uniformity_plot
                     \<lparr>plot_items :=
                        plot_items uniformity_plot @
                        [BarGraph [0 ..< length (fst collected)] (snd collected)],
                      bottom_ticks := Some (enumerate 0 (fst collected))\<rparr>))))
          else Inr uniformity_plot)
      else Inr uniformity_plot)"

text \<open>Lines 132-141.\<close>

definition qplot_ctp528 :: "pyval \<Rightarrow> plot \<Rightarrow> exn + plot" where
  "qplot_ctp528 phantom mtf_plot =
     (if hasattr phantom ''ctp528'' then
        and_then (getattr phantom ''ctp528'') (\<lambda>ctp528.
          if hasattr ctp528 ''mtf'' then
            and_then (getattr ctp528 ''mtf'') (\<lambda>mtf.
            and_then (getattr mtf ''mtf'') (\<lambda>mtf_data.
            and_then (getattr mtf ''lp_mm'') (\<lambda>lp_mm.
              Inr (mtf_plot
                     \<lparr>plot_items :=
                        plot_items mtf_plot @
                        [MtfCurve lp_mm mtf_data, HLine ''0.5'' ''r'', HLine ''0.1'' ''g'']\<rparr>))))
          else Inr mtf_plot)
      else Inr mtf_plot)"

text \<open>Lines 148-153.\<close>

fun contrast_points_loop ::
  "(pykey \<times> pyval) list \<Rightarrow> pyval list \<Rightarrow> nat list \<Rightarrow> nat \<Rightarrow> exn + pyval list \<times> nat list" where
  "contrast_points_loop [] contrasts roi_nums i = Inr (contrasts, roi_nums)"
| "contrast_points_loop ((name, roi) # rest) contrasts roi_nums i =
     and_then (key_lower name) (\<lambda>lowered.
       if \<not> contains lowered ''bg'' then
         and_then (getattr roi ''contrast'') (\<lambda>c.
           contrast_points_loop rest (contrasts @ [c]) (roi_nums @ [i]) (i + 1))
       else contrast_points_loop rest contrasts roi_nums i)"

text \<open>Lines 144-156.\<close>

definition qplot_ctp515 :: "pyval \<Rightarrow> plot \<Rightarrow> exn + plot" where
  "qplot_ctp515 phantom low_contrast_plot =
     (if hasattr phantom ''ctp515'' then
        and_then (getattr phantom ''ctp515'') (\<lambda>ctp515.
          if hasattr ctp515 ''rois'' then
            and_then (getattr ctp515 ''rois'') (\<lambda>rois.
            and_then (py_items rois) (\<lambda>items.
            and_then (contrast_points_loop items [] [] 0) (\<lambda>collected.
              Inr (low_contrast_plot
                     \<lparr>plot_items :=
                        plot_items low_contrast_plot @
                        [ContrastPoints (snd collected) (fst collected)]\<rparr>))))
          else Inr low_contrast_plot)
      else Inr low_contrast_plot)"

text \<open>
  \<^verbatim>\<open>qplot_analyzed_image\<close> (lines 55-156): the widget is cleared, the four plots are
  added, then each is drawn in turn. The result is the object with its widget as the
  call leaves it, and the exception that ended the call, if one did.
\<close>

definition qplot_analyzed_image :: "env \<Rightarrow> QCTAnalysis \<Rightarrow> QCTAnalysis \<times> exn option" where
  "qplot_analyzed_image env self =
     (if \<not> HAS_PYQTGRAPH env \<or> analyzed_image_plot_widget self = None then (self, None)
      else
        (let hu_linearity_plot =
               addPlot ''HU_Linearity_Plot'' ''<b>HU Linearity</b>'' (0, 0)
                 ''Measured HU'' ''Nominal HU'';
             uniformity_plot =
               addPlot ''Uniformity_Plot'' ''<b>HU Uniformity</b>'' (0, 1) ''HU'' ''ROI Position'';
             mtf_plot =
               addPlot ''MTF_Plot'' ''<b>Modulation Transfer Function</b>'' (1, 0)
                 ''MTF'' ''Line pairs/mm'';
             low_contrast_plot =
               addPlot ''Low_Contrast_Plot'' ''<b>Low Contrast</b>'' (1, 1) ''Contrast'' ''ROI #''
         in (case qplot_ctp404 (qa_phantom self) hu_linearity_plot of
               Inl err \<Rightarrow>
                 (self\<lparr>analyzed_image_plot_widget :=
                         Some [hu_linearity_plot, uniformity_plot, mtf_plot, low_contrast_plot]\<rparr>,
                  Some err)
             | Inr hu_linearity_plot' \<Rightarrow>
                 (case qplot_ctp486 (qa_phantom self) uniformity_plot of
                    Inl err \<Rightarrow>
                      (self\<lparr>analyzed_image_plot_widget :=
                              Some [hu_linearity_plot', uniformity_plot, mtf_plot, low_contrast_plot]\<rparr>,
                       Some err)
                  | Inr uniformity_plot' \<Rightarrow>
                      (case qplot_ctp528 (qa_phantom self) mtf_plot of
                         Inl err \<Rightarrow>
                           (self\<lparr>analyzed_image_plot_widget :=
                                   Some [hu_linearity_plot', uniformity_plot', mtf_plot,
                                         low_contrast_plot]\<rparr>,
                            Some err)
                       | Inr mtf_plot' \<Rightarrow>
                           (case qplot_ctp515 (qa_phantom self) low_contrast_plot of
                              Inl err \<Rightarrow>
                                (self\<lparr>analyzed_image_plot_widget :=
                                        Some [hu_linearity_plot', uniformity_plot', mtf_plot',
                                              low_contrast_plot]\<rparr>,
                                 Some err)
                            | Inr low_contrast_plot' \<Rightarrow>
                                (self\<lparr>analyzed_image_plot_widget :=
                                        Some [hu_linearity_plot', uniformity_plot', mtf_plot',
                                              low_contrast_plot']\<rparr>,
                                 None)))))))"

text \<open>The plots of the widget that have something drawn in them, by name.\<close>

definition populated_plots :: "QCTAnalysis \<Rightarrow> string list" where
  "populated_plots self =
     (case analyzed_image_plot_widget self of
        None \<Rightarrow> []
      | Some plots \<Rightarrow> map plot_name (filter (\<lambda>p. plot_items p \<noteq> []) plots))"

subsection \<open>The summary rows (lines 276-321 of \<^verbatim>\<open>analyze\<close>)\<close>

text \<open>
  A row is the two-element Python list \<^verbatim>\<open>[label, value]\<close>; \<open>summary_text\<close> is the list
  the code appends to. Each loop is a recursion over the items of the dictionary that
  threads \<open>summary_text\<close> through and stops at the first exception.
\<close>

type_synonym row = "string list"

fun hu_linearity_loop :: "(pykey \<times> pyval) list \<Rightarrow> row list \<Rightarrow> exn + row list" where
  "hu_linearity_loop [] summary_text = Inr summary_text"
| "hu_linearity_loop ((material, vals) # rest) summary_text =
     (if material \<noteq> StrKey ''background'' then
        and_then (getattr vals ''value'') (\<lambda>v.
        and_then (format_spec_f 2 v) (\<lambda>vs.
        and_then (getattr vals ''nominal'') (\<lambda>n.
        and_then (format_spec_f 2 n) (\<lambda>ns.
          hu_linearity_loop rest
            (summary_text @
             [[''  '' @ key_str material @ '':'', vs @ '' HU (Expected: '' @ ns @ '' HU)'']])))))
      else hu_linearity_loop rest summary_text)"

fun uniformity_loop :: "(pykey \<times> pyval) list \<Rightarrow> row list \<Rightarrow> exn + row list" where
  "uniformity_loop [] summary_text = Inr summary_text"
| "uniformity_loop ((position, v) # rest) summary_text =
     and_then (format_spec_f 2 v) (\<lambda>vs.
       uniformity_loop rest (summary_text @ [[''  '' @ key_str position @ '':'', vs @ '' HU'']]))"

fun mtf_loop :: "(pykey \<times> pyval) list \<Rightarrow> row list \<Rightarrow> exn + row list" where
  "mtf_loop [] summary_text = Inr summary_text"
| "mtf_loop ((percent, lp_mm) # rest) summary_text =
     and_then (format_spec_f 2 lp_mm) (\<lambda>vs.
       mtf_loop rest (summary_text @ [[''  MTF '' @ key_str percent @ ''%:'', vs @ '' lp/mm'']]))"

text \<open>\<^verbatim>\<open>for i, contrast in enumerate(...)\<close>: the counter \<open>i\<close> starts at 0.\<close>

fun low_contrast_loop :: "nat \<Rightarrow> pyval list \<Rightarrow> row list \<Rightarrow> exn + row list" where
  "low_contrast_loop i [] summary_text = Inr summary_text"
| "low_contrast_loop i (contrast # rest) summary_text =
     and_then (format_spec_f 4 contrast) (\<lambda>vs.
       low_contrast_loop (i + 1) rest (summary_text @ [[''  ROI '' @ str_nat (i + 1) @ '':'', vs]]))"

text \<open>Lines 286-290.\<close>

definition hu_linearity_block :: "pyval \<Rightarrow> row list \<Rightarrow> exn + row list" where
  "hu_linearity_block data summary_text =
     (if hasattr data ''hu_linearity'' then
        and_then (getattr data ''hu_linearity'') (\<lambda>d.
        and_then (py_items d) (\<lambda>items.
          hu_linearity_loop items (summary_text @ [[''HU Linearity:'', '''']])))
      else Inr summary_text)"

text \<open>Lines 295-301.\<close>

definition uniformity_block :: "pyval \<Rightarrow> row list \<Rightarrow> exn + row list" where
  "uniformity_block data summary_text =
     (if hasattr data ''uniformity'' then
        and_then (getattr data ''uniformity'') (\<lambda>d.
        and_then (py_items d) (\<lambda>items.
        and_then (uniformity_loop items (summary_text @ [[''HU Uniformity:'', '''']])) (\<lambda>summary_text'.
          if hasattr data ''uniformity_index'' then
            and_then (getattr data ''uniformity_index'') (\<lambda>u.
            and_then (format_spec_f 2 u) (\<lambda>us.
              Inr (summary_text' @ [[''Uniformity Index:'', us]])))
          else Inr summary_text')))
      else Inr summary_text)"

text \<open>Lines 306-309.\<close>

definition mtf_block :: "pyval \<Rightarrow> row list \<Rightarrow> exn + row list" where
  "mtf_block data summary_text =
     (if hasattr data ''mtf'' then
        and_then (getattr data ''mtf'') (\<lambda>d.
        and_then (py_items d) (\<lambda>items.
          mtf_loop items (summary_text @ [[''Spatial Resolution:'', '''']])))
      else Inr summary_text)"

text \<open>Lines 314-320.\<close>

definition low_contrast_block :: "pyval \<Rightarrow> row list \<Rightarrow> exn + row list" where
  "low_contrast_block data summary_text =
     (if hasattr data ''low_contrast'' then
        and_then (getattr data ''low_contrast'') (\<lambda>d.
        and_then (py_values d) (\<lambda>contrasts.
        and_then (low_contrast_loop 0 contrasts (summary_text @ [[''Low Contrast:'', '''']])) (\<lambda>summary_text'.
          if hasattr data ''low_contrast_visibility'' then
            and_then (getattr data ''low_contrast_visibility'') (\<lambda>c.
            and_then (format_spec_f 4 c) (\<lambda>cs.
              Inr (summary_text' @ [[''Low Contrast Visibility:'', cs]])))
          else Inr summary_text')))
      else Inr summary_text)"

text \<open>
  Lines 282-321: the header row and a blank row, then the four blocks with a blank
  row appended after each of the first three.
\<close>

definition build_summary_text :: "phantom_type \<Rightarrow> pyval \<Rightarrow> exn + row list" where
  "build_summary_text phantom_type data =
     and_then (phantom_type_value phantom_type) (\<lambda>label.
     and_then (hu_linearity_block data [[''Phantom Type:'', label], ['''', '''']]) (\<lambda>st1.
     and_then (uniformity_block data (st1 @ [['''', '''']])) (\<lambda>st2.
     and_then (mtf_block data (st2 @ [['''', '''']])) (\<lambda>st3.
       low_contrast_block data (st3 @ [['''', '''']])))))"

subsection \<open>\<^verbatim>\<open>QCTAnalysisWorker\<close>\<close>

record results =
  summary_text :: "row list"
  ct_analysis_obj :: QCTAnalysis

text \<open>The four Qt signals of the worker; a run is the list of its emissions in order.\<close>

datatype signal =
    Analysis_progress string
  | Analysis_results_ready results
  | Thread_finished
  | Analysis_failed string

text \<open>
  The attributes \<^verbatim>\<open>_path\<close>, \<^verbatim>\<open>_phantom_type\<close>, \<^verbatim>\<open>_ct_analysis\<close> and \<^verbatim>\<open>_phantom\<close> of the
  worker; the last one does not exist before \<^verbatim>\<open>analyze\<close> has loaded a phantom.
\<close>

record QCTAnalysisWorker =
  wk_path :: string
  wk_phantom_type :: phantom_type
  wk_ct_analysis :: "QCTAnalysis option"
  wk_phantom :: "pyval option"

text \<open>\<^verbatim>\<open>QCTAnalysisWorker.__init__\<close>\<close>

definition QCTAnalysisWorker_init :: "string \<Rightarrow> phantom_type \<Rightarrow> QCTAnalysisWorker" where
  "QCTAnalysisWorker_init path phantom_type =
     \<lparr>wk_path = path, wk_phantom_type = phantom_type, wk_ct_analysis = None, wk_phantom = None\<rparr>"

text \<open>
  The body of the \<^verbatim>\<open>try\<close> (lines 252-329): the worker as the body leaves it, the
  signals emitted so far, and the exception that ended the body, if one did.
\<close>

definition analyze_try :: "env \<Rightarrow> QCTAnalysisWorker \<Rightarrow> QCTAnalysisWorker \<times> signal list \<times> exn option" where
  "analyze_try env self =
     (let emitted1 = [Analysis_progress ''Loading CT dataset...''] in
      (case load_phantom env (wk_phantom_type self) (wk_path self) of
         Inl err \<Rightarrow> (self, emitted1, Some err)
       | Inr loaded \<Rightarrow>
           (let self1 = self\<lparr>wk_phantom := Some loaded\<rparr>;
                emitted2 = emitted1 @ [Analysis_progress ''Analyzing CT dataset...'']
            in (case phantom_analyze env loaded of
                  Inl err \<Rightarrow> (self1, emitted2, Some err)
                | Inr phantom \<Rightarrow>
                    (let self2 = self1\<lparr>wk_phantom := Some phantom,
                                       wk_ct_analysis := Some (QCTAnalysis_init env phantom)\<rparr>
                     in (case call_method phantom ''results_data'' of
                           Inl err \<Rightarrow> (self2, emitted2, Some err)
                         | Inr data \<Rightarrow>
                             (case build_summary_text (wk_phantom_type self) data of
                                Inl err \<Rightarrow> (self2, emitted2, Some err)
                              | Inr rows \<Rightarrow>
                                  (self2,
                                   emitted2 @
                                   [Analysis_results_ready
                                      \<lparr>summary_text = rows,
                                       ct_analysis_obj = QCTAnalysis_init env phantom\<rparr>,
                                    Thread_finished],
                                   None))))))))"

text \<open>
  \<^verbatim>\<open>analyze\<close> with its handler (lines 331-335). The clause is \<^verbatim>\<open>except Exception\<close>: an
  exception that is not an instance of \<^verbatim>\<open>Exception\<close> passes it and leaves \<^verbatim>\<open>analyze\<close>
  with nothing more emitted. For the others the failure signal carries
  \<^verbatim>\<open>traceback.format_exception_only(err)[-1]\<close>, the finished signal follows and the
  exception is raised again. The third component is the exception that leaves
  \<^verbatim>\<open>analyze\<close>, \<open>None\<close> when it returns.
\<close>

definition analyze :: "env \<Rightarrow> QCTAnalysisWorker \<Rightarrow> QCTAnalysisWorker \<times> signal list \<times> exn option" where
  "analyze env self =
     (case analyze_try env self of
        (self', emitted, None) \<Rightarrow> (self', emitted, None)
      | (self', emitted, Some err) \<Rightarrow>
          (if is_Exception err
           then (case py_last (format_exception_only err) of
                   Inl index_error \<Rightarrow> (self', emitted, Some index_error)
                 | Inr line \<Rightarrow>
                     (self', emitted @ [Analysis_failed line, Thread_finished], Some err))
           else (self', emitted, Some err)))"

text \<open>Which signal an emission is.\<close>

fun is_result :: "signal \<Rightarrow> bool" where
  "is_result (Analysis_results_ready r) = True"
| "is_result s = False"

fun is_failure :: "signal \<Rightarrow> bool" where
  "is_failure (Analysis_failed m) = True"
| "is_failure s = False"

fun is_progress :: "signal \<Rightarrow> bool" where
  "is_progress (Analysis_progress m) = True"
| "is_progress s = False"

section \<open>\<^verbatim>\<open>ui/linac_qa/ct_widgets.py\<close>\<close>

subsection \<open>The worksheet\<close>

text \<open>
  Modelled from the spec: the state constants of \<^verbatim>\<open>AnalysisInfoLabel\<close>
  (\<^verbatim>\<open>ui.util_widgets.statusbar\<close>, not among the sources), of which the worksheet uses
  only the names; the specification lists the states idle, running, completed and
  failed.
\<close>

datatype AnalysisInfoLabel = IDLE | IN_PROGRESS | SUCCESS | FAILURE

text \<open>
  The \<^verbatim>\<open>itemData\<close> dictionary of a dataset: the path of the archive and the cached
  result of its last successful analysis, \<^verbatim>\<open>None\<close> before the first.
\<close>

record dataset =
  file_path :: string
  analysis_data :: "results option"

record list_item =
  item_text :: string
  item_checked :: bool
  item_data :: dataset

text \<open>
  Modelled from the spec: the modal error dialog, \<^verbatim>\<open>MessageDialog\<close> of
  \<^verbatim>\<open>ui.util_widgets.dialogs\<close> (not among the sources), as the texts the worksheet sets
  on it before showing it.
\<close>

record MessageDialog =
  dialog_icon :: string
  dialog_title :: string
  dialog_header_text :: string
  dialog_info_text :: string

text \<open>
  The attributes and child widgets of \<^verbatim>\<open>QCTAnalysisWorksheet\<close> that its slots read or
  write. The emissions of \<^verbatim>\<open>analysis_info_signal\<close> and the dialogs shown are kept as
  lists, in order.
\<close>

record QCTAnalysisWorksheet =
  datasetListWidget :: "list_item list"
  selected_dataset :: "dataset list"
  analysis_in_progress :: bool
  analysis_state :: AnalysisInfoLabel
  analysis_message :: "string option"
  analyzeBtn_text :: string
  analyzeBtn_enabled :: bool
  addDatasetBtn_enabled :: bool
  advancedViewBtn_enabled :: bool
  genReportBtn_enabled :: bool
  analysis_progress_bar_visible :: bool
  analysis_message_label_visible :: bool
  analysis_message_label_text :: string
  outcomeFrame_visible :: bool
  form_layout :: "(string \<times> string) list"
  analysis_info_signal :: "(AnalysisInfoLabel \<times> string option) list"
  dialogs_shown :: "MessageDialog list"


subsection \<open>The report\<close>

text \<open>
  Modelled from the spec: \<^verbatim>\<open>SimpleReport\<close> of \<^verbatim>\<open>core.tools.report\<close>, which is not among
  the sources. The specification describes the exported document as a title, an
  ISO-8601 date, one table (the summary rows) and one image per populated module; the
  model keeps what \<^verbatim>\<open>add_table\<close> and \<^verbatim>\<open>add_image\<close> are given, in call order, and reading
  the table of a saved report back is reading the field \<open>report_tables\<close>.
\<close>

record SimpleReport =
  report_title :: string
  report_date :: string
  report_tables :: "(string \<times> row list) list"
  report_images :: "(string \<times> publishable_plot) list"

definition SimpleReport_init :: SimpleReport where
  "SimpleReport_init = \<lparr>report_title = '''', report_date = '''', report_tables = [], report_images = []\<rparr>"

definition add_table :: "SimpleReport \<Rightarrow> string \<Rightarrow> row list \<Rightarrow> SimpleReport" where
  "add_table report name table = report\<lparr>report_tables := report_tables report @ [(name, table)]\<rparr>"

definition add_image :: "SimpleReport \<Rightarrow> string \<Rightarrow> publishable_plot \<Rightarrow> SimpleReport" where
  "add_image report name img = report\<lparr>report_images := report_images report @ [(name, img)]\<rparr>"

text \<open>
  What the desktop contributes to \<^verbatim>\<open>generate_report\<close>: the path the save dialog
  returns (empty when the user cancels), today's date in ISO format, what
  \<^verbatim>\<open>report.save\<close> does (\<open>Some err\<close> when it raises), and \<^verbatim>\<open>platform.system()\<close>.
\<close>

record desktop =
  getSaveFileName :: string
  currentDate :: string
  save_raises :: "string \<Rightarrow> exn option"
  platform_system :: string

text \<open>
  The outcome of \<^verbatim>\<open>generate_report\<close>: the report saved and its path, the command
  the saved file was opened with, and the exception that left the slot, if any.
\<close>

record report_outcome =
  report_saved :: "(string \<times> SimpleReport) option"
  report_opened_with :: "string list option"
  report_raised :: "exn option"

definition nothing_done :: report_outcome where
  "nothing_done = \<lparr>report_saved = None, report_opened_with = None, report_raised = None\<rparr>"

text \<open>Lines 454-456: the rows of two elements are copied into the table.\<close>

fun summary_table_loop :: "row list \<Rightarrow> row list \<Rightarrow> row list" where
  "summary_table_loop [] summary_table = summary_table"
| "summary_table_loop (row # rest) summary_table =
     (if length row = 2 then summary_table_loop rest (summary_table @ [row])
      else summary_table_loop rest summary_table)"

text \<open>Lines 464-465: \<^verbatim>\<open>for i, plot in enumerate(plot_images)\<close>.\<close>

fun add_images_loop :: "nat \<Rightarrow> publishable_plot list \<Rightarrow> SimpleReport \<Rightarrow> SimpleReport" where
  "add_images_loop i [] report = report"
| "add_images_loop i (plot # rest) report =
     add_images_loop (i + 1) rest (add_image report (''Plot '' @ str_nat (i + 1)) plot)"

text \<open>
  Lines 470-476. The module does not import \<^verbatim>\<open>os\<close>, so the Windows branch raises
  NameError; the other two call the opener through \<^verbatim>\<open>subprocess\<close>.
\<close>

definition open_report :: "string \<Rightarrow> string \<Rightarrow> exn + string list" where
  "open_report system path =
     (if system = ''Windows'' then Inl (NameError ''os'')
      else if system = ''Darwin'' then Inr [''open'', path]
      else Inr [''xdg-open'', path])"

text \<open>\<^verbatim>\<open>QCTAnalysisWorksheet.generate_report\<close> (lines 428-476).\<close>

definition generate_report :: "desktop \<Rightarrow> QCTAnalysisWorksheet \<Rightarrow> report_outcome" where
  "generate_report desk self =
     (case selected_dataset self of
        [] \<Rightarrow> nothing_done
      | dataset # others \<Rightarrow>
          (case analysis_data dataset of
             None \<Rightarrow> nothing_done
           | Some cached \<Rightarrow>
               (let path = getSaveFileName desk in
                if path = [] then nothing_done
                else
                  (let report0 = SimpleReport_init
                         \<lparr>report_title := ''CT Analysis Report'', report_date := currentDate desk\<rparr>;
                       summary_table = summary_table_loop (summary_text cached) [];
                       report1 = add_table report0 ''Analysis Results'' summary_table
                   in (case get_publishable_plots (ct_analysis_obj cached) of
                         Inl err \<Rightarrow> nothing_done\<lparr>report_raised := Some err\<rparr>
                       | Inr plot_images \<Rightarrow>
                           (let report2 = add_images_loop 0 plot_images report1 in
                            (case save_raises desk path of
                               Some err \<Rightarrow> nothing_done\<lparr>report_raised := Some err\<rparr>
                             | None \<Rightarrow>
                                 (case open_report (platform_system desk) path of
                                    Inl err \<Rightarrow>
                                      \<lparr>report_saved = Some (path, report2),
                                       report_opened_with = None, report_raised = Some err\<rparr>
                                  | Inr command \<Rightarrow>
                                      \<lparr>report_saved = Some (path, report2),
                                       report_opened_with = Some command,
                                       report_raised = None\<rparr>))))))))"

section \<open>The summary rows as the specification words them\<close>

text \<open>
  The specification describes the summary as a fixed sequence of blocks, each built
  from its own field group and empty when the group is absent. The definitions of
  this section follow those words, not the code: a value that is not there is \<open>None\<close>,
  a block is computed on its own from the results object, and the summary is the
  concatenation of the blocks with blank rows between them. They are compared with
  \<open>build_summary_text\<close> below.
\<close>

definition blank_row :: row where
  "blank_row = ['''', '''']"

definition attr :: "pyval \<Rightarrow> string \<Rightarrow> pyval option" where
  "attr v a = (case v of PyObject cls attrs \<Rightarrow> map_of attrs a | _ \<Rightarrow> None)"

definition float_text :: "nat \<Rightarrow> pyval \<Rightarrow> string option" where
  "float_text p v = (case v of PyFloat f \<Rightarrow> Some (format_f p f) | _ \<Rightarrow> None)"

definition dict_items :: "pyval \<Rightarrow> (pykey \<times> pyval) list option" where
  "dict_items v = (case v of PyDict kvs \<Rightarrow> Some kvs | _ \<Rightarrow> None)"

definition spec_linearity_row :: "pykey \<times> pyval \<Rightarrow> row option" where
  "spec_linearity_row entry =
     (case (Option.bind (attr (snd entry) ''value'') (float_text 2),
            Option.bind (attr (snd entry) ''nominal'') (float_text 2)) of
        (Some vs, Some ns) \<Rightarrow>
          Some [''  '' @ key_str (fst entry) @ '':'', vs @ '' HU (Expected: '' @ ns @ '' HU)'']
      | _ \<Rightarrow> None)"

definition spec_uniformity_row :: "pykey \<times> pyval \<Rightarrow> row option" where
  "spec_uniformity_row entry =
     map_option (\<lambda>vs. [''  '' @ key_str (fst entry) @ '':'', vs @ '' HU''])
       (float_text 2 (snd entry))"

definition spec_mtf_row :: "pykey \<times> pyval \<Rightarrow> row option" where
  "spec_mtf_row entry =
     map_option (\<lambda>vs. [''  MTF '' @ key_str (fst entry) @ ''%:'', vs @ '' lp/mm''])
       (float_text 2 (snd entry))"

definition spec_low_contrast_row :: "nat \<times> pyval \<Rightarrow> row option" where
  "spec_low_contrast_row entry =
     map_option (\<lambda>vs. [''  ROI '' @ str_nat (fst entry) @ '':'', vs])
       (float_text 4 (snd entry))"

text \<open>An aggregate row after a block: absent, or one row with the formatted value.\<close>

definition spec_aggregate :: "string \<Rightarrow> nat \<Rightarrow> pyval \<Rightarrow> string \<Rightarrow> row list option" where
  "spec_aggregate label p data a =
     (case attr data a of
        None \<Rightarrow> Some []
      | Some v \<Rightarrow> map_option (\<lambda>s. [[label, s]]) (float_text p v))"

definition spec_hu_linearity_block :: "pyval \<Rightarrow> row list option" where
  "spec_hu_linearity_block data =
     (case attr data ''hu_linearity'' of
        None \<Rightarrow> Some []
      | Some d \<Rightarrow>
          Option.bind (dict_items d) (\<lambda>items.
          Option.bind
            (those (map spec_linearity_row
               (filter (\<lambda>entry. fst entry \<noteq> StrKey ''background'') items))) (\<lambda>rows.
          Some ([''HU Linearity:'', ''''] # rows))))"

definition spec_uniformity_block :: "pyval \<Rightarrow> row list option" where
  "spec_uniformity_block data =
     (case attr data ''uniformity'' of
        None \<Rightarrow> Some []
      | Some d \<Rightarrow>
          Option.bind (dict_items d) (\<lambda>items.
          Option.bind (those (map spec_uniformity_row items)) (\<lambda>rows.
          Option.bind (spec_aggregate ''Uniformity Index:'' 2 data ''uniformity_index'') (\<lambda>index.
          Some ([''HU Uniformity:'', ''''] # rows @ index)))))"

definition spec_mtf_block :: "pyval \<Rightarrow> row list option" where
  "spec_mtf_block data =
     (case attr data ''mtf'' of
        None \<Rightarrow> Some []
      | Some d \<Rightarrow>
          Option.bind (dict_items d) (\<lambda>items.
          Option.bind (those (map spec_mtf_row items)) (\<lambda>rows.
          Some ([''Spatial Resolution:'', ''''] # rows))))"

definition spec_low_contrast_block :: "pyval \<Rightarrow> row list option" where
  "spec_low_contrast_block data =
     (case attr data ''low_contrast'' of
        None \<Rightarrow> Some []
      | Some d \<Rightarrow>
          Option.bind (dict_items d) (\<lambda>items.
          Option.bind
            (those (map spec_low_contrast_row (enumerate 1 (map snd items)))) (\<lambda>rows.
          Option.bind
            (spec_aggregate ''Low Contrast Visibility:'' 4 data ''low_contrast_visibility'')
            (\<lambda>visibility.
          Some ([''Low Contrast:'', ''''] # rows @ visibility)))))"

definition spec_phantom_label :: "phantom_type \<Rightarrow> string option" where
  "spec_phantom_label phantom_type =
     (case phantom_type of Member k \<Rightarrow> Some (PHANTOM_value k) | NonMember ty v eq \<Rightarrow> v)"

text \<open>
  Phantom type header, blank, HU linearity block, blank, uniformity block (+ index),
  blank, spatial-resolution block, blank, low-contrast block (+ visibility).
\<close>

definition spec_summary_rows :: "phantom_type \<Rightarrow> pyval \<Rightarrow> row list option" where
  "spec_summary_rows phantom_type data =
     Option.bind (spec_phantom_label phantom_type) (\<lambda>label.
     Option.bind (spec_hu_linearity_block data) (\<lambda>linearity.
     Option.bind (spec_uniformity_block data) (\<lambda>uniformity.
     Option.bind (spec_mtf_block data) (\<lambda>mtf.
     Option.bind (spec_low_contrast_block data) (\<lambda>low_contrast.
       Some ([[''Phantom Type:'', label]] @ [blank_row] @ linearity @ [blank_row] @
             uniformity @ [blank_row] @ mtf @ [blank_row] @ low_contrast))))))"

subsection \<open>The last line of an error description\<close>

text \<open>
  The specification speaks of the last line of the formatted exception. The lines of
  a string are its pieces up to and including each line feed, and a last piece
  without one when the string does not end in a line feed; the lines of the formatted
  exception are the lines of the strings \<^verbatim>\<open>traceback.format_exception_only\<close> returns,
  in order.
\<close>

fun lines_of :: "string \<Rightarrow> string list" where
  "lines_of [] = []"
| "lines_of (c # cs) =
     (if c = CHR 0x0A then [c] # lines_of cs
      else (case lines_of cs of [] \<Rightarrow> [[c]] | l # ls \<Rightarrow> (c # l) # ls))"

definition formatted_lines :: "exn \<Rightarrow> string list" where
  "formatted_lines err = concat (map lines_of (format_exception_only err))"

definition spec_last_line :: "exn \<Rightarrow> string" where
  "spec_last_line err = last (formatted_lines err)"

section \<open>Well-formed results objects\<close>

text \<open>
  What the summary code relies on without checking: a field group that is present is
  a dictionary of floats (for the HU linearity group, of objects with float attributes
  \<^verbatim>\<open>value\<close> and \<^verbatim>\<open>nominal\<close>, the entry \<^verbatim>\<open>background\<close> apart), and an aggregate
  (\<^verbatim>\<open>uniformity_index\<close>, \<^verbatim>\<open>low_contrast_visibility\<close>) that is present is a float.
\<close>

definition is_float :: "pyval \<Rightarrow> bool" where
  "is_float v = (case v of PyFloat f \<Rightarrow> True | _ \<Rightarrow> False)"

definition float_attr :: "pyval \<Rightarrow> string \<Rightarrow> bool" where
  "float_attr obj a = (case getattr obj a of Inl err \<Rightarrow> False | Inr v \<Rightarrow> is_float v)"

definition group_ok :: "(pykey \<times> pyval \<Rightarrow> bool) \<Rightarrow> pyval \<Rightarrow> string \<Rightarrow> bool" where
  "group_ok entry_ok data g =
     (case getattr data g of
        Inl err \<Rightarrow> True
      | Inr d \<Rightarrow> (case d of PyDict items \<Rightarrow> list_all entry_ok items | _ \<Rightarrow> False))"

definition aggregate_ok :: "pyval \<Rightarrow> string \<Rightarrow> bool" where
  "aggregate_ok data a = (case getattr data a of Inl err \<Rightarrow> True | Inr v \<Rightarrow> is_float v)"

definition linearity_entry_ok :: "pykey \<times> pyval \<Rightarrow> bool" where
  "linearity_entry_ok entry =
     (fst entry = StrKey ''background'' \<or>
      (float_attr (snd entry) ''value'' \<and> float_attr (snd entry) ''nominal''))"

definition float_entry_ok :: "pykey \<times> pyval \<Rightarrow> bool" where
  "float_entry_ok entry = is_float (snd entry)"

definition well_formed :: "pyval \<Rightarrow> bool" where
  "well_formed data =
     (group_ok linearity_entry_ok data ''hu_linearity'' \<and>
      group_ok float_entry_ok data ''uniformity'' \<and>
      aggregate_ok data ''uniformity_index'' \<and>
      group_ok float_entry_ok data ''mtf'' \<and>
      group_ok float_entry_ok data ''low_contrast'' \<and>
      aggregate_ok data ''low_contrast_visibility'')"

section \<open>Sample inputs\<close>

text \<open>An archive that \<^verbatim>\<open>from_zip\<close> cannot read.\<close>

definition bad_zip_error :: exn where
  "bad_zip_error = Raised ''BadZipFile'' [] (''zipfile.BadZipFile: File is not a zip file'' @ newline)"

definition env_bad_zip :: env where
  "env_bad_zip =
     \<lparr>from_zip = (\<lambda>cls path. Inl bad_zip_error),
      phantom_analyze = (\<lambda>phantom. Inr phantom),
      HAS_PYQTGRAPH = True\<rparr>"

definition sample_worker :: QCTAnalysisWorker where
  "sample_worker = QCTAnalysisWorker_init ''scan.zip'' (Member CATPHAN_504)"

text \<open>
  A results object with all four groups. The floats are the doubles Python reads
  from the literals \<^verbatim>\<open>-998.6\<close>, \<^verbatim>\<open>-1000.0\<close>, \<^verbatim>\<open>12.5\<close>, \<^verbatim>\<open>10.0\<close>, \<^verbatim>\<open>0.75\<close>, \<^verbatim>\<open>0.375\<close>,
  \<^verbatim>\<open>0.625\<close>, \<^verbatim>\<open>0.1234567\<close> and \<^verbatim>\<open>1.5\<close>: \<^verbatim>\<open>(-998.6).as_integer_ratio()\<close> is
  \<open>(-8783778491976909, 2^43)\<close> and \<^verbatim>\<open>(0.1234567).as_integer_ratio()\<close> is
  \<open>(4447996384931129, 2^55)\<close>.
\<close>

definition minus_998_6 :: pyfloat where
  "minus_998_6 = Finite True 8783778491976909 (- 43)"

definition contrast_0_1234567 :: pyfloat where
  "contrast_0_1234567 = Finite False 4447996384931129 (- 55)"

definition sample_data :: pyval where
  "sample_data =
     PyObject ''CatphanResult''
       [(''hu_linearity'',
         PyDict
           [(StrKey ''Air'',
             PyObject ''ROIResult''
               [(''value'', PyFloat minus_998_6), (''nominal'', PyFloat (Finite True 1000 0))]),
            (StrKey ''background'',
             PyObject ''ROIResult'' [(''value'', PyFloat (Finite False 0 0))])]),
        (''uniformity'',
         PyDict
           [(StrKey ''Top'', PyFloat (Finite False 25 (- 1))),
            (StrKey ''Center'', PyFloat (Finite False 10 0))]),
        (''uniformity_index'', PyFloat (Finite False 3 (- 2))),
        (''mtf'',
         PyDict
           [(ObjKey ''int'' ''50'', PyFloat (Finite False 3 (- 3))),
            (ObjKey ''int'' ''10'', PyFloat (Finite False 5 (- 3)))]),
        (''low_contrast'', PyDict [(StrKey ''15'', PyFloat contrast_0_1234567)]),
        (''low_contrast_visibility'', PyFloat (Finite False 3 (- 1)))]"

definition sample_rows :: "row list" where
  "sample_rows =
     [[''Phantom Type:'', ''CatPhan 504''],
      ['''', ''''],
      [''HU Linearity:'', ''''],
      [''  Air:'', ''-998.60 HU (Expected: -1000.00 HU)''],
      ['''', ''''],
      [''HU Uniformity:'', ''''],
      [''  Top:'', ''12.50 HU''],
      [''  Center:'', ''10.00 HU''],
      [''Uniformity Index:'', ''0.75''],
      ['''', ''''],
      [''Spatial Resolution:'', ''''],
      [''  MTF 50%:'', ''0.38 lp/mm''],
      [''  MTF 10%:'', ''0.62 lp/mm''],
      ['''', ''''],
      [''Low Contrast:'', ''''],
      [''  ROI 1:'', ''0.1235''],
      [''Low Contrast Visibility:'', ''1.5000'']]"

text \<open>A results object with none of the four groups, and one with two of them.\<close>

definition bare_data :: pyval where
  "bare_data = PyObject ''CatphanResult'' [(''catphan_model'', PyStr ''504'')]"

definition partial_data :: pyval where
  "partial_data =
     PyObject ''CatphanResult''
       [(''uniformity'', PyDict [(StrKey ''Top'', PyFloat (Finite False 25 (- 1)))]),
        (''mtf'', PyDict [(ObjKey ''int'' ''50'', PyFloat (Finite False 3 (- 3)))])]"

text \<open>A results object whose linearity entry has no \<^verbatim>\<open>nominal\<close>.\<close>

definition missing_nominal_data :: pyval where
  "missing_nominal_data =
     PyObject ''CatphanResult''
       [(''hu_linearity'',
         PyDict [(StrKey ''Air'', PyObject ''ROIResult'' [(''value'', PyFloat minus_998_6)])])]"

text \<open>An installation in which every archive loads as a phantom with the given results.\<close>

definition phantom_with :: "pyval \<Rightarrow> pyval" where
  "phantom_with data = PyObject ''CatPhan504'' [(''results_data'', PyMethod (Inr data))]"

definition env_with :: "pyval \<Rightarrow> env" where
  "env_with phantom =
     \<lparr>from_zip = (\<lambda>cls path. Inr phantom),
      phantom_analyze = (\<lambda>loaded. Inr loaded),
      HAS_PYQTGRAPH = True\<rparr>"

text \<open>An installation in which only \<^verbatim>\<open>CatPhan504.from_zip\<close> can read the archive.\<close>

definition env_only_504 :: env where
  "env_only_504 =
     \<lparr>from_zip = (\<lambda>cls path. if cls = CatPhan504 then Inr (phantom_with bare_data)
                              else Inl bad_zip_error),
      phantom_analyze = (\<lambda>loaded. Inr loaded),
      HAS_PYQTGRAPH = True\<rparr>"

text \<open>
  A library call that ends the interpreter: \<^verbatim>\<open>SystemExit\<close> derives from
  \<^verbatim>\<open>BaseException\<close>, not from \<^verbatim>\<open>Exception\<close>.
\<close>

definition system_exit :: exn where
  "system_exit = RaisedBase ''SystemExit'' [] (''SystemExit: 1'' @ newline)"

definition env_system_exit :: env where
  "env_system_exit =
     \<lparr>from_zip = (\<lambda>cls path. Inl system_exit),
      phantom_analyze = (\<lambda>phantom. Inr phantom),
      HAS_PYQTGRAPH = True\<rparr>"

text \<open>
  An archive that \<^verbatim>\<open>from_zip\<close> rejects with \<^verbatim>\<open>ValueError("bad scan\nsee log")\<close>, a
  message of two lines.
\<close>

definition two_line_error :: exn where
  "two_line_error = ValueError (''bad scan'' @ newline @ ''see log'')"

definition env_two_line :: env where
  "env_two_line =
     \<lparr>from_zip = (\<lambda>cls path. Inl two_line_error),
      phantom_analyze = (\<lambda>phantom. Inr phantom),
      HAS_PYQTGRAPH = True\<rparr>"

text \<open>An installation in which the archive loads and \<^verbatim>\<open>phantom.analyze()\<close> raises.\<close>

definition no_phantom_error :: exn where
  "no_phantom_error = ValueError ''Unable to find the phantom''"

definition env_analyze_fails :: env where
  "env_analyze_fails =
     \<lparr>from_zip = (\<lambda>cls path. Inr (phantom_with bare_data)),
      phantom_analyze = (\<lambda>loaded. Inl no_phantom_error),
      HAS_PYQTGRAPH = True\<rparr>"

text \<open>A loaded object that has no method \<^verbatim>\<open>results_data\<close>.\<close>

definition phantom_without_results :: pyval where
  "phantom_without_results = PyObject ''CatPhan504'' []"

text \<open>
  Values passed in place of an enumeration member: the string \<^verbatim>\<open>"CatPhan 504"\<close>, which
  is equal to no member and has no attribute \<^verbatim>\<open>value\<close>, and \<^verbatim>\<open>unittest.mock.ANY\<close>,
  which is equal to everything.
\<close>

definition str_catphan_504 :: phantom_type where
  "str_catphan_504 = NonMember ''str'' None (\<lambda>k. Inr False)"

definition mock_ANY :: phantom_type where
  "mock_ANY = NonMember ''_ANY'' None (\<lambda>k. Inr True)"

text \<open>A worker that was given the string in place of the member.\<close>

definition sample_str_worker :: QCTAnalysisWorker where
  "sample_str_worker = QCTAnalysisWorker_init ''scan.zip'' str_catphan_504"

text \<open>
  A phantom on which only the uniformity module (\<^verbatim>\<open>ctp486\<close>) and the MTF module
  (\<^verbatim>\<open>ctp528\<close>) are present.
\<close>

definition sample_ctp486 :: pyval where
  "sample_ctp486 =
     PyObject ''CTP486''
       [(''results_data'', PyMethod (Inr PyNone)),
        (''rois'',
         PyDict
           [(StrKey ''Top'', PyObject ''HUDiskROI'' [(''pixel_value'', PyFloat (Finite False 25 (- 1)))]),
            (StrKey ''Center'', PyObject ''HUDiskROI'' [(''pixel_value'', PyFloat (Finite False 10 0))])])]"

definition sample_ctp528 :: pyval where
  "sample_ctp528 =
     PyObject ''CTP528CP504''
       [(''plot_mtf'', PyMethod (Inr PyNone)),
        (''mtf'',
         PyObject ''MTF''
           [(''mtf'', PyObject ''numpy.ndarray'' []), (''lp_mm'', PyObject ''numpy.ndarray'' [])])]"

definition uniformity_mtf_phantom :: pyval where
  "uniformity_mtf_phantom =
     PyObject ''CatPhan504'' [(''ctp486'', sample_ctp486), (''ctp528'', sample_ctp528)]"

text \<open>An analysed phantom with all four modules, whose results are \<open>sample_data\<close>.\<close>

definition sample_ctp404 :: pyval where
  "sample_ctp404 =
     PyObject ''CTP404CP504''
       [(''plot_linearity'', PyMethod (Inr PyNone)),
        (''rois'',
         PyDict
           [(StrKey ''Air'',
             PyObject ''HUDiskROI''
               [(''nominal_val'', PyFloat (Finite True 1000 0)),
                (''pixel_value'', PyFloat minus_998_6)])])]"

definition sample_ctp515 :: pyval where
  "sample_ctp515 =
     PyObject ''CTP515''
       [(''rois'',
         PyDict
           [(StrKey ''15'', PyObject ''LowContrastDiskROI'' [(''contrast'', PyFloat contrast_0_1234567)]),
            (StrKey ''BG 15'', PyObject ''LowContrastDiskROI'' [(''contrast'', PyFloat (Finite False 0 0))])])]"

definition analysed_phantom :: pyval where
  "analysed_phantom =
     PyObject ''CatPhan504''
       [(''results_data'', PyMethod (Inr sample_data)),
        (''ctp404'', sample_ctp404),
        (''ctp486'', sample_ctp486),
        (''ctp528'', sample_ctp528),
        (''ctp515'', sample_ctp515)]"

definition sample_results :: results where
  "sample_results =
     \<lparr>summary_text = sample_rows,
      ct_analysis_obj = QCTAnalysis_init (env_with analysed_phantom) analysed_phantom\<rparr>"

text \<open>
  A worksheet with one dataset, selected, that carries the result of an earlier
  successful run, while a second run is in progress.
\<close>

definition sample_dataset :: dataset where
  "sample_dataset = \<lparr>file_path = ''scan.zip'', analysis_data = Some sample_results\<rparr>"

definition sample_worksheet :: QCTAnalysisWorksheet where
  "sample_worksheet =
     \<lparr>datasetListWidget =
        [\<lparr>item_text = ''scan.zip'', item_checked = True, item_data = sample_dataset\<rparr>],
      selected_dataset = [sample_dataset],
      analysis_in_progress = True,
      analysis_state = IN_PROGRESS,
      analysis_message = None,
      analyzeBtn_text = ''Analysis in progress...'',
      analyzeBtn_enabled = False,
      addDatasetBtn_enabled = False,
      advancedViewBtn_enabled = False,
      genReportBtn_enabled = False,
      analysis_progress_bar_visible = True,
      analysis_message_label_visible = True,
      analysis_message_label_text = ''Loading CT dataset...'',
      outcomeFrame_visible = True,
      form_layout = [],
      analysis_info_signal = [(IN_PROGRESS, None)],
      dialogs_shown = []\<rparr>"

definition sample_desktop :: desktop where
  "sample_desktop =
     \<lparr>getSaveFileName = ''report.pdf'',
      currentDate = ''2024-05-01'',
      save_raises = (\<lambda>path. None),
      platform_system = ''Linux''\<rparr>"

text \<open>The report \<^verbatim>\<open>generate_report\<close> saves for that worksheet on that desktop.\<close>

definition sample_report :: SimpleReport where
  "sample_report =
     \<lparr>report_title = ''CT Analysis Report'',
      report_date = ''2024-05-01'',
      report_tables = [(''Analysis Results'', sample_rows)],
      report_images =
        [(''Plot 1'', LinearityPdf),
         (''Plot 2'',
          UniformityPdf [StrKey ''Top'', StrKey ''Center'']
            [PyFloat (Finite False 25 (- 1)), PyFloat (Finite False 10 0)]),
         (''Plot 3'', MtfPdf),
         (''Plot 4'', LowContrastPdf [StrKey ''15''] [PyFloat contrast_0_1234567])]\<rparr>"

section \<open>Properties of the worker\<close>

lemma and_then_Inl [simp]: "and_then (Inl err) f = Inl err"
  by (simp add: and_then_def)

lemma and_then_Inr [simp]: "and_then (Inr x) f = f x"
  by (simp add: and_then_def)

lemma format_exception_only_nonempty: "format_exception_only err \<noteq> []"
  by (cases err) simp_all

lemma py_last_format_exception_only:
  "py_last (format_exception_only err) = Inr (last (format_exception_only err))"
  by (simp add: py_last_def format_exception_only_nonempty)

lemma analyze_try_shape:
  "\<exists>self' ps. (\<exists>err. analyze_try env self = (self', map Analysis_progress ps, Some err)) \<or>
     (\<exists>r. analyze_try env self =
        (self', map Analysis_progress ps @ [Analysis_results_ready r, Thread_finished], None))"
proof (cases "load_phantom env (wk_phantom_type self) (wk_path self)")
  case (Inl err)
  then have "analyze_try env self = (self, map Analysis_progress [''Loading CT dataset...''], Some err)"
    by (simp add: analyze_try_def)
  then show ?thesis by blast
next
  case load: (Inr loaded)
  let ?ps = "[''Loading CT dataset...'', ''Analyzing CT dataset...'']"
  show ?thesis
  proof (cases "phantom_analyze env loaded")
    case (Inl err)
    with load have "analyze_try env self =
        (self\<lparr>wk_phantom := Some loaded\<rparr>, map Analysis_progress ?ps, Some err)"
      by (simp add: analyze_try_def)
    then show ?thesis by blast
  next
    case an: (Inr phantom)
    show ?thesis
    proof (cases "call_method phantom ''results_data''")
      case (Inl err)
      with load an have "\<exists>self'. analyze_try env self = (self', map Analysis_progress ?ps, Some err)"
        by (simp add: analyze_try_def)
      then show ?thesis by blast
    next
      case rd: (Inr data)
      show ?thesis
      proof (cases "build_summary_text (wk_phantom_type self) data")
        case (Inl err)
        with load an rd have "\<exists>self'. analyze_try env self = (self', map Analysis_progress ?ps, Some err)"
          by (simp add: analyze_try_def)
        then show ?thesis by blast
      next
        case (Inr rows)
        with load an rd have "\<exists>self' r. analyze_try env self =
            (self', map Analysis_progress ?ps @ [Analysis_results_ready r, Thread_finished], None)"
          by (simp add: analyze_try_def)
        then show ?thesis by blast
      qed
    qed
  qed
qed

text \<open>
  The three ways a run ends: the handler has emitted the failure and the finished
  signal, the exception has passed the handler, or the body has emitted the result
  and the finished signal.
\<close>

lemma analyze_ends:
  "\<exists>self' ps.
     (\<exists>err. is_Exception err \<and>
        analyze env self =
          (self', map Analysis_progress ps @
             [Analysis_failed (last (format_exception_only err)), Thread_finished], Some err)) \<or>
     (\<exists>err. \<not> is_Exception err \<and>
        analyze env self = (self', map Analysis_progress ps, Some err)) \<or>
     (\<exists>r. analyze env self =
        (self', map Analysis_progress ps @ [Analysis_results_ready r, Thread_finished], None))"
proof -
  from analyze_try_shape [of env self] obtain self' ps where
    "(\<exists>err. analyze_try env self = (self', map Analysis_progress ps, Some err)) \<or>
     (\<exists>r. analyze_try env self =
        (self', map Analysis_progress ps @ [Analysis_results_ready r, Thread_finished], None))"
    by blast
  then show ?thesis
  proof
    assume "\<exists>err. analyze_try env self = (self', map Analysis_progress ps, Some err)"
    then obtain err where body: "analyze_try env self = (self', map Analysis_progress ps, Some err)" ..
    show ?thesis
    proof (cases "is_Exception err")
      case True
      with body have "analyze env self =
          (self', map Analysis_progress ps @
             [Analysis_failed (last (format_exception_only err)), Thread_finished], Some err)"
        by (simp add: analyze_def py_last_format_exception_only)
      with True show ?thesis by blast
    next
      case False
      with body have "analyze env self = (self', map Analysis_progress ps, Some err)"
        by (simp add: analyze_def)
      with False show ?thesis by blast
    qed
  next
    assume "\<exists>r. analyze_try env self =
        (self', map Analysis_progress ps @ [Analysis_results_ready r, Thread_finished], None)"
    then obtain r where "analyze_try env self =
        (self', map Analysis_progress ps @ [Analysis_results_ready r, Thread_finished], None)" ..
    then have "analyze env self =
        (self', map Analysis_progress ps @ [Analysis_results_ready r, Thread_finished], None)"
      by (simp add: analyze_def)
    then show ?thesis by blast
  qed
qed

lemma analyze_shape:
  assumes "analyze env self = (self', emitted, raised)"
    and "\<forall>e. raised = Some e \<longrightarrow> is_Exception e"
  shows "\<exists>ps outcome.
           emitted = map Analysis_progress ps @ [outcome, Thread_finished] \<and>
           is_result outcome = (raised = None) \<and>
           is_failure outcome = (raised \<noteq> None)"
proof -
  from analyze_ends [of env self] obtain self0 ps where ends:
    "(\<exists>err. is_Exception err \<and>
        analyze env self =
          (self0, map Analysis_progress ps @
             [Analysis_failed (last (format_exception_only err)), Thread_finished], Some err)) \<or>
     (\<exists>err. \<not> is_Exception err \<and>
        analyze env self = (self0, map Analysis_progress ps, Some err)) \<or>
     (\<exists>r. analyze env self =
        (self0, map Analysis_progress ps @ [Analysis_results_ready r, Thread_finished], None))"
    by blast
  then consider
    (failed) err where
      "emitted = map Analysis_progress ps @
         [Analysis_failed (last (format_exception_only err)), Thread_finished]"
      "raised = Some err"
    | (returned) r where
      "emitted = map Analysis_progress ps @ [Analysis_results_ready r, Thread_finished]"
      "raised = None"
    using assms by auto
  then show ?thesis
  proof cases
    case failed
    then have "emitted = map Analysis_progress ps @
          [Analysis_failed (last (format_exception_only err)), Thread_finished] \<and>
        is_result (Analysis_failed (last (format_exception_only err))) = (raised = None) \<and>
        is_failure (Analysis_failed (last (format_exception_only err))) = (raised \<noteq> None)"
      by simp
    then show ?thesis by blast
  next
    case returned
    then have "emitted = map Analysis_progress ps @ [Analysis_results_ready r, Thread_finished] \<and>
        is_result (Analysis_results_ready r) = (raised = None) \<and>
        is_failure (Analysis_results_ready r) = (raised \<noteq> None)"
      by simp
    then show ?thesis by blast
  qed
qed

subsection \<open>The code and the specification build the same rows\<close>

lemma and_then_eq_Inr: "(and_then m f = Inr r) = (\<exists>x. m = Inr x \<and> f x = Inr r)"
  by (cases m) simp_all

lemma getattr_eq_Inr: "(getattr v a = Inr x) = (attr v a = Some x)"
  by (cases v) (auto simp: attr_def split: option.splits)

lemma hasattr_attr: "hasattr v a = (attr v a \<noteq> None)"
  by (cases v) (auto simp: hasattr_def attr_def split: option.splits)

lemma format_spec_f_eq_Inr: "(format_spec_f p v = Inr s) = (float_text p v = Some s)"
  by (cases v) (auto simp: float_text_def)

lemma py_items_eq_Inr: "(py_items d = Inr items) = (dict_items d = Some items)"
  by (cases d) (auto simp: dict_items_def)

lemma py_values_eq_Inr:
  "(py_values d = Inr vs) = (\<exists>items. dict_items d = Some items \<and> vs = map snd items)"
  by (cases d) (auto simp: dict_items_def)

lemma linearity_row_code:
  "(and_then (getattr vals ''value'') (\<lambda>v.
    and_then (format_spec_f 2 v) (\<lambda>vs.
    and_then (getattr vals ''nominal'') (\<lambda>n.
    and_then (format_spec_f 2 n) (\<lambda>ns. K vs ns)))) = Inr r) =
   (\<exists>vs ns. Option.bind (attr vals ''value'') (float_text 2) = Some vs \<and>
            Option.bind (attr vals ''nominal'') (float_text 2) = Some ns \<and>
            K vs ns = Inr r)"
  by (auto simp: and_then_eq_Inr getattr_eq_Inr format_spec_f_eq_Inr bind_eq_Some_conv)

lemma hu_linearity_loop_spec:
  "(hu_linearity_loop items st = Inr st') =
   (\<exists>rows. those (map spec_linearity_row
              (filter (\<lambda>entry. fst entry \<noteq> StrKey ''background'') items)) = Some rows \<and>
           st' = st @ rows)"
proof (induction items arbitrary: st)
  case Nil
  show ?case by auto
next
  case (Cons entry items)
  obtain material vals where entry: "entry = (material, vals)" by (cases entry)
  show ?case
    unfolding entry
    by (auto simp: Cons.IH linearity_row_code spec_linearity_row_def split: option.splits)
qed

lemma uniformity_loop_spec:
  "(uniformity_loop items st = Inr st') =
   (\<exists>rows. those (map spec_uniformity_row items) = Some rows \<and> st' = st @ rows)"
proof (induction items arbitrary: st)
  case Nil
  show ?case by auto
next
  case (Cons entry items)
  obtain position v where entry: "entry = (position, v)" by (cases entry)
  show ?case
    unfolding entry
    by (auto simp: Cons.IH and_then_eq_Inr format_spec_f_eq_Inr spec_uniformity_row_def
          split: option.splits)
qed

lemma mtf_loop_spec:
  "(mtf_loop items st = Inr st') =
   (\<exists>rows. those (map spec_mtf_row items) = Some rows \<and> st' = st @ rows)"
proof (induction items arbitrary: st)
  case Nil
  show ?case by auto
next
  case (Cons entry items)
  obtain percent lp_mm where entry: "entry = (percent, lp_mm)" by (cases entry)
  show ?case
    unfolding entry
    by (auto simp: Cons.IH and_then_eq_Inr format_spec_f_eq_Inr spec_mtf_row_def
          split: option.splits)
qed

lemma low_contrast_loop_spec:
  "(low_contrast_loop i vs st = Inr st') =
   (\<exists>rows. those (map spec_low_contrast_row (enumerate (Suc i) vs)) = Some rows \<and>
           st' = st @ rows)"
proof (induction vs arbitrary: i st)
  case Nil
  show ?case by auto
next
  case (Cons v vs)
  show ?case
    by (auto simp: Cons.IH and_then_eq_Inr format_spec_f_eq_Inr spec_low_contrast_row_def
          split: option.splits)
qed

lemma aggregate_code:
  "((if hasattr data a then
       and_then (getattr data a) (\<lambda>u. and_then (format_spec_f p u) (\<lambda>us. Inr (st @ [[label, us]])))
     else Inr st) = Inr st') =
   (\<exists>rows. spec_aggregate label p data a = Some rows \<and> st' = st @ rows)"
  by (auto simp: spec_aggregate_def hasattr_attr and_then_eq_Inr getattr_eq_Inr
        format_spec_f_eq_Inr split: option.splits)

lemma hu_linearity_block_spec:
  "(hu_linearity_block data st = Inr st') =
   (\<exists>rows. spec_hu_linearity_block data = Some rows \<and> st' = st @ rows)"
  by (auto simp: hu_linearity_block_def spec_hu_linearity_block_def hasattr_attr and_then_eq_Inr
        getattr_eq_Inr py_items_eq_Inr hu_linearity_loop_spec bind_eq_Some_conv
      split: option.splits)

lemma uniformity_block_spec:
  "(uniformity_block data st = Inr st') =
   (\<exists>rows. spec_uniformity_block data = Some rows \<and> st' = st @ rows)"
proof (cases "attr data ''uniformity''")
  case None
  then show ?thesis
    by (auto simp: uniformity_block_def spec_uniformity_block_def hasattr_attr)
next
  case (Some d)
  then have code: "uniformity_block data st =
      and_then (py_items d) (\<lambda>items.
      and_then (uniformity_loop items (st @ [[''HU Uniformity:'', '''']])) (\<lambda>summary_text'.
        if hasattr data ''uniformity_index'' then
          and_then (getattr data ''uniformity_index'') (\<lambda>u.
          and_then (format_spec_f 2 u) (\<lambda>us.
            Inr (summary_text' @ [[''Uniformity Index:'', us]])))
        else Inr summary_text'))"
    using getattr_eq_Inr [of data "''uniformity''" d]
    by (simp add: uniformity_block_def hasattr_attr)
  have "(uniformity_block data st = Inr st') =
      (\<exists>items rows index. dict_items d = Some items \<and>
         those (map spec_uniformity_row items) = Some rows \<and>
         spec_aggregate ''Uniformity Index:'' 2 data ''uniformity_index'' = Some index \<and>
         st' = st @ [''HU Uniformity:'', ''''] # rows @ index)"
    unfolding code and_then_eq_Inr aggregate_code py_items_eq_Inr uniformity_loop_spec
    by auto
  also have "\<dots> = (\<exists>rows. spec_uniformity_block data = Some rows \<and> st' = st @ rows)"
    using Some by (auto simp: spec_uniformity_block_def bind_eq_Some_conv)
  finally show ?thesis .
qed

lemma mtf_block_spec:
  "(mtf_block data st = Inr st') =
   (\<exists>rows. spec_mtf_block data = Some rows \<and> st' = st @ rows)"
  by (auto simp: mtf_block_def spec_mtf_block_def hasattr_attr and_then_eq_Inr
        getattr_eq_Inr py_items_eq_Inr mtf_loop_spec bind_eq_Some_conv
      split: option.splits)

lemma low_contrast_block_spec:
  "(low_contrast_block data st = Inr st') =
   (\<exists>rows. spec_low_contrast_block data = Some rows \<and> st' = st @ rows)"
proof (cases "attr data ''low_contrast''")
  case None
  then show ?thesis
    by (auto simp: low_contrast_block_def spec_low_contrast_block_def hasattr_attr)
next
  case (Some d)
  then have code: "low_contrast_block data st =
      and_then (py_values d) (\<lambda>contrasts.
      and_then (low_contrast_loop 0 contrasts (st @ [[''Low Contrast:'', '''']])) (\<lambda>summary_text'.
        if hasattr data ''low_contrast_visibility'' then
          and_then (getattr data ''low_contrast_visibility'') (\<lambda>c.
          and_then (format_spec_f 4 c) (\<lambda>cs.
            Inr (summary_text' @ [[''Low Contrast Visibility:'', cs]])))
        else Inr summary_text'))"
    using getattr_eq_Inr [of data "''low_contrast''" d]
    by (simp add: low_contrast_block_def hasattr_attr)
  have "(low_contrast_block data st = Inr st') =
      (\<exists>items rows visibility. dict_items d = Some items \<and>
         those (map spec_low_contrast_row (enumerate (Suc 0) (map snd items))) = Some rows \<and>
         spec_aggregate ''Low Contrast Visibility:'' 4 data ''low_contrast_visibility'' =
           Some visibility \<and>
         st' = st @ [''Low Contrast:'', ''''] # rows @ visibility)"
    unfolding code and_then_eq_Inr aggregate_code py_values_eq_Inr low_contrast_loop_spec
    by auto
  also have "\<dots> = (\<exists>rows. spec_low_contrast_block data = Some rows \<and> st' = st @ rows)"
    using Some by (auto simp: spec_low_contrast_block_def bind_eq_Some_conv)
  finally show ?thesis .
qed

lemma phantom_type_value_spec:
  "(phantom_type_value phantom_type = Inr label) = (spec_phantom_label phantom_type = Some label)"
  by (cases phantom_type rule: phantom_type_value.cases) (auto simp: spec_phantom_label_def)

lemma build_summary_text_spec:
  "(build_summary_text phantom_type data = Inr rows) =
   (spec_summary_rows phantom_type data = Some rows)"
  by (auto simp: build_summary_text_def spec_summary_rows_def and_then_eq_Inr blank_row_def
        phantom_type_value_spec hu_linearity_block_spec uniformity_block_spec mtf_block_spec
        low_contrast_block_spec bind_eq_Some_conv)

lemma analyze_result_emitted:
  assumes "analyze env self = (self', emitted, raised)"
    and "Analysis_results_ready r \<in> set emitted"
  shows "\<exists>loaded phantom data.
           load_phantom env (wk_phantom_type self) (wk_path self) = Inr loaded \<and>
           phantom_analyze env loaded = Inr phantom \<and>
           call_method phantom ''results_data'' = Inr data \<and>
           build_summary_text (wk_phantom_type self) data = Inr (summary_text r) \<and>
           ct_analysis_obj r = QCTAnalysis_init env phantom"
  using assms
  by (auto simp: analyze_def analyze_try_def Let_def py_last_format_exception_only
      split: sum.splits if_splits)

subsection \<open>Sample runs\<close>

lemma sample_formats:
  "format_f 2 minus_998_6 = ''-998.60''"
  "format_f 2 (Finite True 1000 0) = ''-1000.00''"
  "format_f 2 (Finite False 25 (- 1)) = ''12.50''"
  "format_f 2 (Finite False 10 0) = ''10.00''"
  "format_f 2 (Finite False 3 (- 2)) = ''0.75''"
  "format_f 2 (Finite False 3 (- 3)) = ''0.38''"
  "format_f 2 (Finite False 5 (- 3)) = ''0.62''"
  "format_f 4 contrast_0_1234567 = ''0.1235''"
  "format_f 4 (Finite False 3 (- 1)) = ''1.5000''"
  by (simp_all add: minus_998_6_def contrast_0_1234567_def scaled_def round_half_even_def
        zero_pad_def sign_str_def str_nat.simps digit_char_def Let_def)

lemma build_summary_text_sample:
  "build_summary_text (Member CATPHAN_504) sample_data = Inr sample_rows"
  by (simp add: build_summary_text_def hu_linearity_block_def uniformity_block_def mtf_block_def
        low_contrast_block_def hasattr_def sample_data_def sample_rows_def sample_formats
        str_nat.simps digit_char_def
      del: format_f.simps)

lemma build_summary_text_partial:
  "build_summary_text (Member CATPHAN_504) partial_data =
     Inr [[''Phantom Type:'', ''CatPhan 504''],
          ['''', ''''],
          ['''', ''''],
          [''HU Uniformity:'', ''''],
          [''  Top:'', ''12.50 HU''],
          ['''', ''''],
          [''Spatial Resolution:'', ''''],
          [''  MTF 50%:'', ''0.38 lp/mm''],
          ['''', '''']]"
  by (simp add: build_summary_text_def hu_linearity_block_def uniformity_block_def mtf_block_def
        low_contrast_block_def hasattr_def partial_data_def sample_formats
      del: format_f.simps)

lemma build_summary_text_missing_nominal:
  "build_summary_text (Member CATPHAN_504) missing_nominal_data =
     Inl (AttributeError ''ROIResult'' ''nominal'')"
  by (simp add: build_summary_text_def hu_linearity_block_def hasattr_def
        missing_nominal_data_def sample_formats
      del: format_f.simps)

lemma analyze_env_with:
  "analyze (env_with (phantom_with data)) sample_worker =
     (case build_summary_text (Member CATPHAN_504) data of
        Inl err \<Rightarrow>
          (sample_worker
             \<lparr>wk_phantom := Some (phantom_with data),
              wk_ct_analysis := Some (QCTAnalysis_init (env_with (phantom_with data)) (phantom_with data))\<rparr>,
           [Analysis_progress ''Loading CT dataset...'',
            Analysis_progress ''Analyzing CT dataset...''] @
           (if is_Exception err
            then [Analysis_failed (last (format_exception_only err)), Thread_finished]
            else []),
           Some err)
      | Inr rows \<Rightarrow>
          (sample_worker
             \<lparr>wk_phantom := Some (phantom_with data),
              wk_ct_analysis := Some (QCTAnalysis_init (env_with (phantom_with data)) (phantom_with data))\<rparr>,
           [Analysis_progress ''Loading CT dataset...'',
            Analysis_progress ''Analyzing CT dataset...'',
            Analysis_results_ready
              \<lparr>summary_text = rows,
               ct_analysis_obj = QCTAnalysis_init (env_with (phantom_with data)) (phantom_with data)\<rparr>,
            Thread_finished],
           None))"
  by (simp add: analyze_def analyze_try_def load_phantom_def resolve_def env_with_def phantom_with_def
        call_method_def sample_worker_def QCTAnalysisWorker_init_def
        py_last_format_exception_only
      split: sum.splits)

subsection \<open>The steps of a run and what it emits\<close>

text \<open>
  The run step by step: which signals it emits when the load, the analysis, the call
  of \<^verbatim>\<open>results_data\<close> or the building of the summary raises an instance of
  \<^verbatim>\<open>Exception\<close>, and when all four return.
\<close>

lemma analyze_load_raises:
  assumes "load_phantom env (wk_phantom_type self) (wk_path self) = Inl err"
  shows "snd (analyze env self) =
           (if is_Exception err
            then ([Analysis_progress ''Loading CT dataset...'',
                   Analysis_failed (last (format_exception_only err)),
                   Thread_finished], Some err)
            else ([Analysis_progress ''Loading CT dataset...''], Some err))"
  using assms by (simp add: analyze_def analyze_try_def py_last_format_exception_only)

lemma analyze_phantom_analyze_raises:
  assumes "load_phantom env (wk_phantom_type self) (wk_path self) = Inr loaded"
    and "phantom_analyze env loaded = Inl err"
  shows "snd (analyze env self) =
           (if is_Exception err
            then ([Analysis_progress ''Loading CT dataset...'',
                   Analysis_progress ''Analyzing CT dataset...'',
                   Analysis_failed (last (format_exception_only err)),
                   Thread_finished], Some err)
            else ([Analysis_progress ''Loading CT dataset...'',
                   Analysis_progress ''Analyzing CT dataset...''], Some err))"
  using assms by (simp add: analyze_def analyze_try_def py_last_format_exception_only)

lemma analyze_results_data_raises:
  assumes "load_phantom env (wk_phantom_type self) (wk_path self) = Inr loaded"
    and "phantom_analyze env loaded = Inr phantom"
    and "call_method phantom ''results_data'' = Inl err"
  shows "snd (analyze env self) =
           (if is_Exception err
            then ([Analysis_progress ''Loading CT dataset...'',
                   Analysis_progress ''Analyzing CT dataset...'',
                   Analysis_failed (last (format_exception_only err)),
                   Thread_finished], Some err)
            else ([Analysis_progress ''Loading CT dataset...'',
                   Analysis_progress ''Analyzing CT dataset...''], Some err))"
  using assms by (simp add: analyze_def analyze_try_def py_last_format_exception_only)

lemma analyze_summary_raises:
  assumes "load_phantom env (wk_phantom_type self) (wk_path self) = Inr loaded"
    and "phantom_analyze env loaded = Inr phantom"
    and "call_method phantom ''results_data'' = Inr data"
    and "build_summary_text (wk_phantom_type self) data = Inl err"
  shows "snd (analyze env self) =
           (if is_Exception err
            then ([Analysis_progress ''Loading CT dataset...'',
                   Analysis_progress ''Analyzing CT dataset...'',
                   Analysis_failed (last (format_exception_only err)),
                   Thread_finished], Some err)
            else ([Analysis_progress ''Loading CT dataset...'',
                   Analysis_progress ''Analyzing CT dataset...''], Some err))"
  using assms by (simp add: analyze_def analyze_try_def py_last_format_exception_only)

lemma analyze_all_return:
  assumes "load_phantom env (wk_phantom_type self) (wk_path self) = Inr loaded"
    and "phantom_analyze env loaded = Inr phantom"
    and "call_method phantom ''results_data'' = Inr data"
    and "build_summary_text (wk_phantom_type self) data = Inr rows"
  shows "snd (analyze env self) =
           ([Analysis_progress ''Loading CT dataset...'',
             Analysis_progress ''Analyzing CT dataset...'',
             Analysis_results_ready
               \<lparr>summary_text = rows, ct_analysis_obj = QCTAnalysis_init env phantom\<rparr>,
             Thread_finished], None)"
  using assms by (simp add: analyze_def analyze_try_def)

subsection \<open>Sample runs that fail\<close>

lemma resolve_Member:
  "resolve (Member CATPHAN_503) = Inr CatPhan503"
  "resolve (Member CATPHAN_504) = Inr CatPhan504"
  "resolve (Member CATPHAN_600) = Inr CatPhan600"
  "resolve (Member CATPHAN_604) = Inr CatPhan604"
  by (simp_all add: resolve_def)

lemma resolve_all_unequal:
  "(\<And>k. eq k = Inr False) \<Longrightarrow> resolve (NonMember ty v eq) = Inr CatPhan504"
  by (simp add: resolve_def)

lemma sample_worker_fields:
  "wk_phantom_type sample_worker = Member CATPHAN_504"
  "wk_path sample_worker = ''scan.zip''"
  "wk_phantom_type sample_str_worker = str_catphan_504"
  "wk_path sample_str_worker = ''scan.zip''"
  by (simp_all add: sample_worker_def sample_str_worker_def QCTAnalysisWorker_init_def)

lemma load_bad_zip:
  "load_phantom env_bad_zip (wk_phantom_type sample_worker) (wk_path sample_worker) =
     Inl bad_zip_error"
  by (simp add: sample_worker_fields load_phantom_def resolve_Member env_bad_zip_def)

lemma load_system_exit:
  "load_phantom env_system_exit (wk_phantom_type sample_worker) (wk_path sample_worker) =
     Inl system_exit"
  by (simp add: sample_worker_fields load_phantom_def resolve_Member env_system_exit_def)

lemma load_two_line:
  "load_phantom env_two_line (wk_phantom_type sample_worker) (wk_path sample_worker) =
     Inl two_line_error"
  by (simp add: sample_worker_fields load_phantom_def resolve_Member env_two_line_def)

lemma load_analyze_fails:
  "load_phantom env_analyze_fails (wk_phantom_type sample_worker) (wk_path sample_worker) =
     Inr (phantom_with bare_data)"
  "phantom_analyze env_analyze_fails (phantom_with bare_data) = Inl no_phantom_error"
  by (simp_all add: sample_worker_fields load_phantom_def resolve_Member env_analyze_fails_def)

lemma load_env_with:
  "load_phantom (env_with phantom) (wk_phantom_type sample_worker) (wk_path sample_worker) =
     Inr phantom"
  "phantom_analyze (env_with phantom) loaded = Inr loaded"
  by (simp_all add: sample_worker_fields load_phantom_def resolve_Member env_with_def)

lemma load_str_worker:
  "load_phantom env_only_504 (wk_phantom_type sample_str_worker) (wk_path sample_str_worker) =
     Inr (phantom_with bare_data)"
  "phantom_analyze env_only_504 loaded = Inr loaded"
  by (simp_all add: sample_worker_fields load_phantom_def str_catphan_504_def resolve_all_unequal
        env_only_504_def)

lemma results_data_phantom_with: "call_method (phantom_with data) ''results_data'' = Inr data"
  by (simp add: call_method_def phantom_with_def)

lemma results_data_missing:
  "call_method phantom_without_results ''results_data'' =
     Inl (AttributeError ''CatPhan504'' ''results_data'')"
  by (simp add: call_method_def phantom_without_results_def)

lemma build_summary_text_str:
  "build_summary_text (wk_phantom_type sample_str_worker) data =
     Inl (AttributeError ''str'' ''value'')"
  by (simp add: sample_worker_fields build_summary_text_def str_catphan_504_def)

lemma build_summary_text_sample_worker:
  "build_summary_text (wk_phantom_type sample_worker) sample_data = Inr sample_rows"
  by (simp add: sample_worker_fields build_summary_text_sample)

lemma sample_error_lines:
  "is_Exception bad_zip_error"
  "last (format_exception_only bad_zip_error) =
     ''zipfile.BadZipFile: File is not a zip file'' @ newline"
  "is_Exception no_phantom_error"
  "last (format_exception_only no_phantom_error) =
     ''ValueError: Unable to find the phantom'' @ newline"
  "is_Exception two_line_error"
  "last (format_exception_only two_line_error) =
     ''ValueError: bad scan'' @ newline @ ''see log'' @ newline"
  "\<not> is_Exception system_exit"
  by (simp_all add: bad_zip_error_def no_phantom_error_def two_line_error_def system_exit_def)

subsection \<open>The signals of a run\<close>

text \<open>
  Claim C1, as the specification states it, speaks of every run. The handler of
  \<^verbatim>\<open>analyze\<close> is \<^verbatim>\<open>except Exception\<close>: when \<^verbatim>\<open>from_zip\<close> ends with \<^verbatim>\<open>SystemExit\<close>,
  which is not an instance of \<^verbatim>\<open>Exception\<close>, the run emits the first progress signal
  and then neither a result nor a failure nor the finished signal.
\<close>

theorem system_exit_emits_no_outcome:
  "snd (analyze env_system_exit sample_worker) =
     ([Analysis_progress ''Loading CT dataset...''], Some system_exit)"
  using analyze_load_raises [OF load_system_exit] by (simp add: sample_error_lines)

text \<open>
  Claim C1, amended. In a run whose steps return or raise an instance of
  \<^verbatim>\<open>Exception\<close>, the signals are progress signals, then exactly one outcome, then
  exactly one finished signal. The outcome is the failure when the load, the analysis
  of the phantom, the call of \<^verbatim>\<open>results_data\<close> or the building of the summary rows
  raises, and no result is emitted then; it is the result, with the rows built and the
  analysis object of the analysed phantom, when all four return, and no failure is
  emitted then. One progress signal precedes the outcome when the load raises, two
  otherwise.
\<close>

theorem run_emits_one_outcome_then_finished:
  "(load_phantom env (wk_phantom_type self) (wk_path self) = Inl err \<and> is_Exception err \<longrightarrow>
      snd (analyze env self) =
        ([Analysis_progress ''Loading CT dataset...'',
          Analysis_failed (last (format_exception_only err)),
          Thread_finished], Some err)) \<and>
   (load_phantom env (wk_phantom_type self) (wk_path self) = Inr loaded \<and>
    phantom_analyze env loaded = Inl err \<and> is_Exception err \<longrightarrow>
      snd (analyze env self) =
        ([Analysis_progress ''Loading CT dataset...'',
          Analysis_progress ''Analyzing CT dataset...'',
          Analysis_failed (last (format_exception_only err)),
          Thread_finished], Some err)) \<and>
   (load_phantom env (wk_phantom_type self) (wk_path self) = Inr loaded \<and>
    phantom_analyze env loaded = Inr phantom \<and>
    call_method phantom ''results_data'' = Inl err \<and> is_Exception err \<longrightarrow>
      snd (analyze env self) =
        ([Analysis_progress ''Loading CT dataset...'',
          Analysis_progress ''Analyzing CT dataset...'',
          Analysis_failed (last (format_exception_only err)),
          Thread_finished], Some err)) \<and>
   (load_phantom env (wk_phantom_type self) (wk_path self) = Inr loaded \<and>
    phantom_analyze env loaded = Inr phantom \<and>
    call_method phantom ''results_data'' = Inr data \<and>
    build_summary_text (wk_phantom_type self) data = Inl err \<and> is_Exception err \<longrightarrow>
      snd (analyze env self) =
        ([Analysis_progress ''Loading CT dataset...'',
          Analysis_progress ''Analyzing CT dataset...'',
          Analysis_failed (last (format_exception_only err)),
          Thread_finished], Some err)) \<and>
   (load_phantom env (wk_phantom_type self) (wk_path self) = Inr loaded \<and>
    phantom_analyze env loaded = Inr phantom \<and>
    call_method phantom ''results_data'' = Inr data \<and>
    build_summary_text (wk_phantom_type self) data = Inr rows \<longrightarrow>
      snd (analyze env self) =
        ([Analysis_progress ''Loading CT dataset...'',
          Analysis_progress ''Analyzing CT dataset...'',
          Analysis_results_ready
            \<lparr>summary_text = rows, ct_analysis_obj = QCTAnalysis_init env phantom\<rparr>,
          Thread_finished], None)) \<and>
   (analyze env self = (self', emitted, raised) \<and>
    (\<forall>e. raised = Some e \<longrightarrow> is_Exception e) \<longrightarrow>
      (\<exists>ps outcome.
         emitted = map Analysis_progress ps @ [outcome, Thread_finished] \<and>
         is_result outcome = (raised = None) \<and>
         is_failure outcome = (raised \<noteq> None)))"
proof (intro conjI impI)
  assume "load_phantom env (wk_phantom_type self) (wk_path self) = Inl err \<and> is_Exception err"
  then show "snd (analyze env self) =
        ([Analysis_progress ''Loading CT dataset...'',
          Analysis_failed (last (format_exception_only err)),
          Thread_finished], Some err)"
    using analyze_load_raises [of env self err] by simp
next
  assume "load_phantom env (wk_phantom_type self) (wk_path self) = Inr loaded \<and>
    phantom_analyze env loaded = Inl err \<and> is_Exception err"
  then show "snd (analyze env self) =
        ([Analysis_progress ''Loading CT dataset...'',
          Analysis_progress ''Analyzing CT dataset...'',
          Analysis_failed (last (format_exception_only err)),
          Thread_finished], Some err)"
    using analyze_phantom_analyze_raises [of env self loaded err] by simp
next
  assume "load_phantom env (wk_phantom_type self) (wk_path self) = Inr loaded \<and>
    phantom_analyze env loaded = Inr phantom \<and>
    call_method phantom ''results_data'' = Inl err \<and> is_Exception err"
  then show "snd (analyze env self) =
        ([Analysis_progress ''Loading CT dataset...'',
          Analysis_progress ''Analyzing CT dataset...'',
          Analysis_failed (last (format_exception_only err)),
          Thread_finished], Some err)"
    using analyze_results_data_raises [of env self loaded phantom err] by simp
next
  assume "load_phantom env (wk_phantom_type self) (wk_path self) = Inr loaded \<and>
    phantom_analyze env loaded = Inr phantom \<and>
    call_method phantom ''results_data'' = Inr data \<and>
    build_summary_text (wk_phantom_type self) data = Inl err \<and> is_Exception err"
  then show "snd (analyze env self) =
        ([Analysis_progress ''Loading CT dataset...'',
          Analysis_progress ''Analyzing CT dataset...'',
          Analysis_failed (last (format_exception_only err)),
          Thread_finished], Some err)"
    using analyze_summary_raises [of env self loaded phantom data err] by simp
next
  assume "load_phantom env (wk_phantom_type self) (wk_path self) = Inr loaded \<and>
    phantom_analyze env loaded = Inr phantom \<and>
    call_method phantom ''results_data'' = Inr data \<and>
    build_summary_text (wk_phantom_type self) data = Inr rows"
  then show "snd (analyze env self) =
        ([Analysis_progress ''Loading CT dataset...'',
          Analysis_progress ''Analyzing CT dataset...'',
          Analysis_results_ready
            \<lparr>summary_text = rows, ct_analysis_obj = QCTAnalysis_init env phantom\<rparr>,
          Thread_finished], None)"
    using analyze_all_return [of env self loaded phantom data rows] by simp
next
  assume "analyze env self = (self', emitted, raised) \<and>
    (\<forall>e. raised = Some e \<longrightarrow> is_Exception e)"
  then show "\<exists>ps outcome.
         emitted = map Analysis_progress ps @ [outcome, Thread_finished] \<and>
         is_result outcome = (raised = None) \<and>
         is_failure outcome = (raised \<noteq> None)"
    using analyze_shape [of env self self' emitted raised] by blast
qed

text \<open>
  The five kinds of run at concrete inputs: an archive that cannot be read, a phantom
  that cannot be found in the images, a loaded object without \<^verbatim>\<open>results_data\<close>, a
  worker given the string \<^verbatim>\<open>"CatPhan 504"\<close> in place of the enumeration member (the
  load falls through to \<^verbatim>\<open>CatPhan504\<close> and the summary header then fails on
  \<^verbatim>\<open>.value\<close>), and a run that succeeds.
\<close>

theorem run_emits_one_outcome_then_finished_witness:
  "snd (analyze env_bad_zip sample_worker) =
     ([Analysis_progress ''Loading CT dataset...'',
       Analysis_failed (''zipfile.BadZipFile: File is not a zip file'' @ newline),
       Thread_finished], Some bad_zip_error) \<and>
   snd (analyze env_analyze_fails sample_worker) =
     ([Analysis_progress ''Loading CT dataset...'',
       Analysis_progress ''Analyzing CT dataset...'',
       Analysis_failed (''ValueError: Unable to find the phantom'' @ newline),
       Thread_finished], Some no_phantom_error) \<and>
   snd (analyze (env_with phantom_without_results) sample_worker) =
     ([Analysis_progress ''Loading CT dataset...'',
       Analysis_progress ''Analyzing CT dataset...'',
       Analysis_failed
         (''AttributeError: '' @ quoted ''CatPhan504'' @ '' object has no attribute '' @
          quoted ''results_data'' @ newline),
       Thread_finished], Some (AttributeError ''CatPhan504'' ''results_data'')) \<and>
   snd (analyze env_only_504 sample_str_worker) =
     ([Analysis_progress ''Loading CT dataset...'',
       Analysis_progress ''Analyzing CT dataset...'',
       Analysis_failed
         (''AttributeError: '' @ quoted ''str'' @ '' object has no attribute '' @
          quoted ''value'' @ newline),
       Thread_finished], Some (AttributeError ''str'' ''value'')) \<and>
   snd (analyze (env_with (phantom_with sample_data)) sample_worker) =
     ([Analysis_progress ''Loading CT dataset...'',
       Analysis_progress ''Analyzing CT dataset...'',
       Analysis_results_ready
         \<lparr>summary_text = sample_rows,
          ct_analysis_obj =
            QCTAnalysis_init (env_with (phantom_with sample_data)) (phantom_with sample_data)\<rparr>,
       Thread_finished], None) \<and>
   (\<exists>ps outcome.
      [Analysis_progress ''Loading CT dataset...'',
       Analysis_failed (''zipfile.BadZipFile: File is not a zip file'' @ newline),
       Thread_finished] = map Analysis_progress ps @ [outcome, Thread_finished] \<and>
      \<not> is_result outcome \<and> is_failure outcome)"
proof -
  note steps = run_emits_one_outcome_then_finished
  have run1: "snd (analyze env_bad_zip sample_worker) =
     ([Analysis_progress ''Loading CT dataset...'',
       Analysis_failed (''zipfile.BadZipFile: File is not a zip file'' @ newline),
       Thread_finished], Some bad_zip_error)"
    using steps [where env = env_bad_zip and self = sample_worker and err = bad_zip_error,
        THEN conjunct1]
    by (simp add: load_bad_zip sample_error_lines)
  have run2: "snd (analyze env_analyze_fails sample_worker) =
     ([Analysis_progress ''Loading CT dataset...'',
       Analysis_progress ''Analyzing CT dataset...'',
       Analysis_failed (''ValueError: Unable to find the phantom'' @ newline),
       Thread_finished], Some no_phantom_error)"
    using steps [where env = env_analyze_fails and self = sample_worker
          and loaded = "phantom_with bare_data" and err = no_phantom_error,
        THEN conjunct2, THEN conjunct1]
    by (simp add: load_analyze_fails sample_error_lines)
  have run3: "snd (analyze (env_with phantom_without_results) sample_worker) =
     ([Analysis_progress ''Loading CT dataset...'',
       Analysis_progress ''Analyzing CT dataset...'',
       Analysis_failed
         (''AttributeError: '' @ quoted ''CatPhan504'' @ '' object has no attribute '' @
          quoted ''results_data'' @ newline),
       Thread_finished], Some (AttributeError ''CatPhan504'' ''results_data''))"
    using steps [where env = "env_with phantom_without_results" and self = sample_worker
          and loaded = phantom_without_results and phantom = phantom_without_results
          and err = "AttributeError ''CatPhan504'' ''results_data''",
        THEN conjunct2, THEN conjunct2, THEN conjunct1]
    by (simp add: load_env_with results_data_missing)
  have run4: "snd (analyze env_only_504 sample_str_worker) =
     ([Analysis_progress ''Loading CT dataset...'',
       Analysis_progress ''Analyzing CT dataset...'',
       Analysis_failed
         (''AttributeError: '' @ quoted ''str'' @ '' object has no attribute '' @
          quoted ''value'' @ newline),
       Thread_finished], Some (AttributeError ''str'' ''value''))"
    using steps [where env = env_only_504 and self = sample_str_worker
          and loaded = "phantom_with bare_data" and phantom = "phantom_with bare_data"
          and data = bare_data and err = "AttributeError ''str'' ''value''",
        THEN conjunct2, THEN conjunct2, THEN conjunct2, THEN conjunct1]
    by (simp add: load_str_worker results_data_phantom_with build_summary_text_str)
  have run5: "snd (analyze (env_with (phantom_with sample_data)) sample_worker) =
     ([Analysis_progress ''Loading CT dataset...'',
       Analysis_progress ''Analyzing CT dataset...'',
       Analysis_results_ready
         \<lparr>summary_text = sample_rows,
          ct_analysis_obj =
            QCTAnalysis_init (env_with (phantom_with sample_data)) (phantom_with sample_data)\<rparr>,
       Thread_finished], None)"
    using steps [where env = "env_with (phantom_with sample_data)" and self = sample_worker
          and loaded = "phantom_with sample_data" and phantom = "phantom_with sample_data"
          and data = sample_data and rows = sample_rows,
        THEN conjunct2, THEN conjunct2, THEN conjunct2, THEN conjunct2, THEN conjunct1]
    by (simp add: load_env_with results_data_phantom_with build_summary_text_sample_worker)
  have ended: "analyze env_bad_zip sample_worker =
      (fst (analyze env_bad_zip sample_worker),
       [Analysis_progress ''Loading CT dataset...'',
        Analysis_failed (''zipfile.BadZipFile: File is not a zip file'' @ newline),
        Thread_finished], Some bad_zip_error)"
    using run1 by (cases "analyze env_bad_zip sample_worker") simp
  have shape: "\<exists>ps outcome.
      [Analysis_progress ''Loading CT dataset...'',
       Analysis_failed (''zipfile.BadZipFile: File is not a zip file'' @ newline),
       Thread_finished] = map Analysis_progress ps @ [outcome, Thread_finished] \<and>
      \<not> is_result outcome \<and> is_failure outcome"
    using steps [where env = env_bad_zip and self = sample_worker
          and self' = "fst (analyze env_bad_zip sample_worker)"
          and emitted = "[Analysis_progress ''Loading CT dataset...'',
            Analysis_failed (''zipfile.BadZipFile: File is not a zip file'' @ newline),
            Thread_finished]"
          and raised = "Some bad_zip_error",
        THEN conjunct2, THEN conjunct2, THEN conjunct2, THEN conjunct2, THEN conjunct2]
      ended
    by (simp add: sample_error_lines)
  from run1 run2 run3 run4 run5 shape show ?thesis
    by (intro conjI)
qed

text \<open>The same in numbers: one outcome, one finished signal at the end, progress before.\<close>

lemma analyze_counts:
  assumes "analyze env self = (self', emitted, raised)"
    and "\<forall>e. raised = Some e \<longrightarrow> is_Exception e"
  shows "length (filter is_result emitted) + length (filter is_failure emitted) = 1"
    and "length (filter (\<lambda>s. s = Thread_finished) emitted) = 1"
    and "last emitted = Thread_finished"
    and "list_all is_progress (butlast (butlast emitted))"
proof -
  from analyze_shape [OF assms] obtain ps outcome where
    emitted: "emitted = map Analysis_progress ps @ [outcome, Thread_finished]"
    and kind: "is_result outcome = (raised = None)" "is_failure outcome = (raised \<noteq> None)"
    by blast
  from kind have outcome: "is_result outcome \<noteq> is_failure outcome" "outcome \<noteq> Thread_finished"
    by auto
  have progress: "filter is_result (map Analysis_progress ps) = []"
    "filter is_failure (map Analysis_progress ps) = []"
    "filter (\<lambda>s. s = Thread_finished) (map Analysis_progress ps) = []"
    "list_all is_progress (map Analysis_progress ps)"
    by (induction ps) simp_all
  from outcome show "length (filter is_result emitted) + length (filter is_failure emitted) = 1"
    unfolding emitted by (auto simp: progress)
  from outcome show "length (filter (\<lambda>s. s = Thread_finished) emitted) = 1"
    unfolding emitted by (simp add: progress)
  show "last emitted = Thread_finished"
    unfolding emitted by simp
  have "butlast (butlast emitted) = map Analysis_progress ps"
    unfolding emitted by (simp add: butlast_append)
  with progress(4) show "list_all is_progress (butlast (butlast emitted))"
    by simp
qed

subsection \<open>What the failure signal carries\<close>

lemma last_formatted_line:
  assumes "lines_of (last (format_exception_only err)) = [last (format_exception_only err)]"
  shows "last (format_exception_only err) = spec_last_line err"
proof -
  obtain ls where ls: "format_exception_only err = ls @ [last (format_exception_only err)]"
    using format_exception_only_nonempty [of err] append_butlast_last_id by metis
  have "formatted_lines err =
      concat (map lines_of ls) @ lines_of (last (format_exception_only err))"
    unfolding formatted_lines_def by (subst ls) simp
  with assms show ?thesis
    by (simp add: spec_last_line_def)
qed

lemma lines_of_line:
  "CHR 0x0A \<notin> set s \<Longrightarrow> lines_of (s @ CHR 0x0A # rest) = (s @ [CHR 0x0A]) # lines_of rest"
  by (induction s) auto

lemma lines_of_sample:
  "lines_of (''zipfile.BadZipFile: File is not a zip file'' @ newline) =
     [''zipfile.BadZipFile: File is not a zip file'' @ newline]"
  "lines_of (''ValueError: bad scan'' @ newline @ ''see log'' @ newline) =
     [''ValueError: bad scan'' @ newline, ''see log'' @ newline]"
  using lines_of_line [of "''zipfile.BadZipFile: File is not a zip file''" "[]"]
    lines_of_line [of "''ValueError: bad scan''" "''see log'' @ newline"]
    lines_of_line [of "''see log''" "[]"]
  by (simp_all add: newline_def)

text \<open>
  Claim C6, as the specification states it, asks for exactly the last line of the
  formatted exception. The handler sends the last string of the list
  \<^verbatim>\<open>traceback.format_exception_only\<close> returns, and that string holds the whole
  message: when \<^verbatim>\<open>from_zip\<close> raises \<^verbatim>\<open>ValueError("bad scan\nsee log")\<close>, the list is the
  one string \<^verbatim>\<open>"ValueError: bad scan\nsee log\n"\<close>, the failure signal carries both of
  its lines, and the last line of the formatted exception is \<^verbatim>\<open>"see log\n"\<close>.
\<close>

theorem two_line_message_carried_whole:
  "snd (analyze env_two_line sample_worker) =
     ([Analysis_progress ''Loading CT dataset...'',
       Analysis_failed (''ValueError: bad scan'' @ newline @ ''see log'' @ newline),
       Thread_finished], Some two_line_error) \<and>
   formatted_lines two_line_error = [''ValueError: bad scan'' @ newline, ''see log'' @ newline] \<and>
   spec_last_line two_line_error = ''see log'' @ newline \<and>
   ''ValueError: bad scan'' @ newline @ ''see log'' @ newline \<noteq> ''see log'' @ newline \<and>
   ''ValueError: bad scan'' @ newline @ ''see log'' @ newline \<noteq> ''see log''"
proof -
  have "snd (analyze env_two_line sample_worker) =
     ([Analysis_progress ''Loading CT dataset...'',
       Analysis_failed (''ValueError: bad scan'' @ newline @ ''see log'' @ newline),
       Thread_finished], Some two_line_error)"
    using analyze_load_raises [OF load_two_line] by (simp add: sample_error_lines)
  moreover have "formatted_lines two_line_error =
      [''ValueError: bad scan'' @ newline, ''see log'' @ newline]"
    using lines_of_sample(2) by (simp add: formatted_lines_def two_line_error_def)
  ultimately show ?thesis
    by (simp add: spec_last_line_def newline_def)
qed

text \<open>
  Claim C6, amended. When a step of the pipeline (the load, the analysis of the
  phantom, the call of \<^verbatim>\<open>results_data\<close> or the building of the summary rows) raises an
  instance \<open>err\<close> of \<^verbatim>\<open>Exception\<close>, the run emits exactly one failure signal, which
  carries the last string of \<^verbatim>\<open>traceback.format_exception_only(err)\<close>, and no result,
  hence no summary rows; \<open>err\<close> is raised again. That string is the last line of the
  formatted exception whenever it holds a single line.
\<close>

theorem failure_carries_last_formatted_string:
  assumes "analyze env self = (self', emitted, raised)"
    and "is_Exception err"
    and "load_phantom env (wk_phantom_type self) (wk_path self) = Inl err \<or>
         (\<exists>loaded. load_phantom env (wk_phantom_type self) (wk_path self) = Inr loaded \<and>
            (phantom_analyze env loaded = Inl err \<or>
             (\<exists>phantom. phantom_analyze env loaded = Inr phantom \<and>
                (call_method phantom ''results_data'' = Inl err \<or>
                 (\<exists>data. call_method phantom ''results_data'' = Inr data \<and>
                    build_summary_text (wk_phantom_type self) data = Inl err)))))"
  shows "filter is_failure emitted = [Analysis_failed (last (format_exception_only err))] \<and>
         filter is_result emitted = [] \<and>
         last emitted = Thread_finished \<and>
         raised = Some err \<and>
         (lines_of (last (format_exception_only err)) = [last (format_exception_only err)] \<longrightarrow>
            last (format_exception_only err) = spec_last_line err)"
proof -
  from assms(3) consider
    (load) "load_phantom env (wk_phantom_type self) (wk_path self) = Inl err"
    | (analysis) loaded where
      "load_phantom env (wk_phantom_type self) (wk_path self) = Inr loaded"
      "phantom_analyze env loaded = Inl err"
    | (results) loaded phantom where
      "load_phantom env (wk_phantom_type self) (wk_path self) = Inr loaded"
      "phantom_analyze env loaded = Inr phantom"
      "call_method phantom ''results_data'' = Inl err"
    | (summary) loaded phantom data where
      "load_phantom env (wk_phantom_type self) (wk_path self) = Inr loaded"
      "phantom_analyze env loaded = Inr phantom"
      "call_method phantom ''results_data'' = Inr data"
      "build_summary_text (wk_phantom_type self) data = Inl err"
    by blast
  then have "snd (analyze env self) =
      ([Analysis_progress ''Loading CT dataset...'',
        Analysis_failed (last (format_exception_only err)),
        Thread_finished], Some err) \<or>
    snd (analyze env self) =
      ([Analysis_progress ''Loading CT dataset...'',
        Analysis_progress ''Analyzing CT dataset...'',
        Analysis_failed (last (format_exception_only err)),
        Thread_finished], Some err)"
  proof cases
    case load
    from analyze_load_raises [OF this] assms(2) show ?thesis by simp
  next
    case analysis
    from analyze_phantom_analyze_raises [OF this] assms(2) show ?thesis by simp
  next
    case results
    from analyze_results_data_raises [OF this] assms(2) show ?thesis by simp
  next
    case summary
    from analyze_summary_raises [OF this] assms(2) show ?thesis by simp
  qed
  with assms(1) have "filter is_failure emitted = [Analysis_failed (last (format_exception_only err))] \<and>
         filter is_result emitted = [] \<and> last emitted = Thread_finished \<and> raised = Some err"
    by auto
  with last_formatted_line [of err] show ?thesis
    by blast
qed

text \<open>
  At the archive that cannot be read the load raises, the message has one line, and
  the failure signal carries the last line of the formatted exception. At the worker
  that was given the string \<^verbatim>\<open>"CatPhan 504"\<close> the building of the summary rows raises,
  after the load, the analysis and \<^verbatim>\<open>results_data\<close> have returned.
\<close>

theorem failure_carries_last_formatted_string_witness:
  "is_Exception bad_zip_error \<and>
   load_phantom env_bad_zip (wk_phantom_type sample_worker) (wk_path sample_worker) =
     Inl bad_zip_error \<and>
   snd (analyze env_bad_zip sample_worker) =
     ([Analysis_progress ''Loading CT dataset...'',
       Analysis_failed (''zipfile.BadZipFile: File is not a zip file'' @ newline),
       Thread_finished], Some bad_zip_error) \<and>
   filter is_failure (fst (snd (analyze env_bad_zip sample_worker))) =
     [Analysis_failed (''zipfile.BadZipFile: File is not a zip file'' @ newline)] \<and>
   filter is_result (fst (snd (analyze env_bad_zip sample_worker))) = [] \<and>
   spec_last_line bad_zip_error = ''zipfile.BadZipFile: File is not a zip file'' @ newline \<and>
   build_summary_text (wk_phantom_type sample_str_worker) bare_data =
     Inl (AttributeError ''str'' ''value'') \<and>
   filter is_failure (fst (snd (analyze env_only_504 sample_str_worker))) =
     [Analysis_failed
        (''AttributeError: '' @ quoted ''str'' @ '' object has no attribute '' @
         quoted ''value'' @ newline)] \<and>
   filter is_result (fst (snd (analyze env_only_504 sample_str_worker))) = [] \<and>
   snd (snd (analyze env_only_504 sample_str_worker)) = Some (AttributeError ''str'' ''value'')"
proof -
  have run: "analyze env_bad_zip sample_worker =
      (fst (analyze env_bad_zip sample_worker),
       fst (snd (analyze env_bad_zip sample_worker)),
       snd (snd (analyze env_bad_zip sample_worker)))"
    by simp
  have one_line: "lines_of (last (format_exception_only bad_zip_error)) =
      [last (format_exception_only bad_zip_error)]"
    unfolding sample_error_lines(2) by (rule lines_of_sample(1))
  have ended: "snd (analyze env_bad_zip sample_worker) =
     ([Analysis_progress ''Loading CT dataset...'',
       Analysis_failed (''zipfile.BadZipFile: File is not a zip file'' @ newline),
       Thread_finished], Some bad_zip_error)"
    using analyze_load_raises [OF load_bad_zip] by (simp add: sample_error_lines)
  from failure_carries_last_formatted_string [OF run sample_error_lines(1) disjI1, OF load_bad_zip]
    one_line ended
  have first: "is_Exception bad_zip_error \<and>
   load_phantom env_bad_zip (wk_phantom_type sample_worker) (wk_path sample_worker) =
     Inl bad_zip_error \<and>
   snd (analyze env_bad_zip sample_worker) =
     ([Analysis_progress ''Loading CT dataset...'',
       Analysis_failed (''zipfile.BadZipFile: File is not a zip file'' @ newline),
       Thread_finished], Some bad_zip_error) \<and>
   filter is_failure (fst (snd (analyze env_bad_zip sample_worker))) =
     [Analysis_failed (''zipfile.BadZipFile: File is not a zip file'' @ newline)] \<and>
   filter is_result (fst (snd (analyze env_bad_zip sample_worker))) = [] \<and>
   spec_last_line bad_zip_error = ''zipfile.BadZipFile: File is not a zip file'' @ newline"
    by (simp add: sample_error_lines load_bad_zip)
  have run': "analyze env_only_504 sample_str_worker =
      (fst (analyze env_only_504 sample_str_worker),
       fst (snd (analyze env_only_504 sample_str_worker)),
       snd (snd (analyze env_only_504 sample_str_worker)))"
    by simp
  have step: "load_phantom env_only_504 (wk_phantom_type sample_str_worker)
        (wk_path sample_str_worker) = Inl (AttributeError ''str'' ''value'') \<or>
      (\<exists>loaded. load_phantom env_only_504 (wk_phantom_type sample_str_worker)
           (wk_path sample_str_worker) = Inr loaded \<and>
         (phantom_analyze env_only_504 loaded = Inl (AttributeError ''str'' ''value'') \<or>
          (\<exists>phantom. phantom_analyze env_only_504 loaded = Inr phantom \<and>
             (call_method phantom ''results_data'' = Inl (AttributeError ''str'' ''value'') \<or>
              (\<exists>data. call_method phantom ''results_data'' = Inr data \<and>
                 build_summary_text (wk_phantom_type sample_str_worker) data =
                   Inl (AttributeError ''str'' ''value''))))))"
    by (simp add: load_str_worker results_data_phantom_with build_summary_text_str)
  have "is_Exception (AttributeError ''str'' ''value'')"
    by simp
  from failure_carries_last_formatted_string [OF run' this step]
  have second: "build_summary_text (wk_phantom_type sample_str_worker) bare_data =
     Inl (AttributeError ''str'' ''value'') \<and>
   filter is_failure (fst (snd (analyze env_only_504 sample_str_worker))) =
     [Analysis_failed
        (''AttributeError: '' @ quoted ''str'' @ '' object has no attribute '' @
         quoted ''value'' @ newline)] \<and>
   filter is_result (fst (snd (analyze env_only_504 sample_str_worker))) = [] \<and>
   snd (snd (analyze env_only_504 sample_str_worker)) = Some (AttributeError ''str'' ''value'')"
    by (simp add: build_summary_text_str)
  from first second show ?thesis
    by (intro conjI) simp_all
qed

subsection \<open>The phantom registry\<close>

text \<open>
  A value that compares equal to a member is loaded with the class of the first such
  member of the chain: \<^verbatim>\<open>unittest.mock.ANY\<close> is loaded with \<^verbatim>\<open>CatPhan503\<close>. A
  comparison that raises ends the load with that exception.
\<close>

lemma load_mock_ANY: "load_phantom env mock_ANY path = from_zip env CatPhan503 path"
  by (simp add: load_phantom_def resolve_def mock_ANY_def)

lemma load_comparison_raises:
  "eq CATPHAN_503 = Inl err \<Longrightarrow> load_phantom env (NonMember ty v eq) path = Inl err"
  by (simp add: load_phantom_def resolve_def)

text \<open>
  Claim C2, as the specification states it, asks that a value outside the enumeration
  makes the resolution fail. The chain of lines 255-265 ends in an \<^verbatim>\<open>else\<close> branch
  that loads with \<^verbatim>\<open>CatPhan504\<close>: at the string \<^verbatim>\<open>"CatPhan 504"\<close>, passed in place of the
  enumeration member, in an installation where only \<^verbatim>\<open>CatPhan504.from_zip\<close> can read
  the archive, the load returns the phantom.
\<close>

theorem non_member_resolves_to_CatPhan504:
  "load_phantom env_only_504 str_catphan_504 ''scan.zip'' = Inr (phantom_with bare_data)"
  by (simp add: load_phantom_def resolve_def env_only_504_def str_catphan_504_def)

text \<open>
  Claim C2, amended. Each of the four phantom kinds resolves to its own analyzer
  class and the four classes are distinct. A value outside the enumeration that
  compares unequal to each of the four members is not rejected by the load step: the
  chain falls through to its \<^verbatim>\<open>else\<close> branch, which picks \<^verbatim>\<open>CatPhan504\<close>, and the load
  is what \<^verbatim>\<open>CatPhan504.from_zip\<close> does with the archive. Nothing is said here
  about the steps after the load: a value without an attribute \<^verbatim>\<open>value\<close> makes the
  summary header of line 282 raise later in the same run.
\<close>

theorem members_distinct_unequal_values_default:
  "resolve (Member CATPHAN_503) = Inr CatPhan503 \<and>
   resolve (Member CATPHAN_504) = Inr CatPhan504 \<and>
   resolve (Member CATPHAN_600) = Inr CatPhan600 \<and>
   resolve (Member CATPHAN_604) = Inr CatPhan604 \<and>
   distinct (map (\<lambda>k. resolve (Member k)) [CATPHAN_503, CATPHAN_504, CATPHAN_600, CATPHAN_604]) \<and>
   ((\<forall>k. eq k = Inr False) \<longrightarrow>
      resolve (NonMember ty v eq) = Inr CatPhan504 \<and>
      load_phantom env (NonMember ty v eq) path = from_zip env CatPhan504 path)"
  by (simp add: resolve_def load_phantom_def)

theorem members_distinct_unequal_values_default_witness:
  "(\<forall>k. (\<lambda>k. Inr False :: exn + bool) k = Inr False) \<and>
   resolve str_catphan_504 = Inr CatPhan504 \<and>
   load_phantom env_only_504 str_catphan_504 ''scan.zip'' =
     from_zip env_only_504 CatPhan504 ''scan.zip'' \<and>
   from_zip env_only_504 CatPhan504 ''scan.zip'' = Inr (phantom_with bare_data)"
  using members_distinct_unequal_values_default
    [of "\<lambda>k. Inr False" "''str''" None env_only_504 "''scan.zip''"]
  by (simp add: str_catphan_504_def env_only_504_def)

subsection \<open>The order of the summary rows\<close>

lemma those_map_pairs:
  assumes "those (map f xs) = Some rows"
    and "\<And>x r. f x = Some r \<Longrightarrow> length r = 2"
  shows "\<forall>r \<in> set rows. length r = 2"
  using assms(1)
proof (induction xs arbitrary: rows)
  case Nil
  then show ?case by simp
next
  case (Cons x xs)
  then show ?case
    by (auto simp: assms(2) split: option.splits)
qed

lemma spec_aggregate_pairs:
  "spec_aggregate label p data a = Some rows \<Longrightarrow> \<forall>r \<in> set rows. length r = 2"
  by (auto simp: spec_aggregate_def split: option.splits)

lemma spec_hu_linearity_block_pairs:
  assumes "spec_hu_linearity_block data = Some rows"
  shows "\<forall>r \<in> set rows. length r = 2"
proof -
  have row: "\<And>x r. spec_linearity_row x = Some r \<Longrightarrow> length r = 2"
    by (auto simp: spec_linearity_row_def split: option.splits)
  from assms show ?thesis
    by (auto simp: spec_hu_linearity_block_def bind_eq_Some_conv split: option.splits
          dest!: those_map_pairs [OF _ row])
qed

lemma spec_uniformity_block_pairs:
  assumes "spec_uniformity_block data = Some rows"
  shows "\<forall>r \<in> set rows. length r = 2"
proof -
  have row: "\<And>x r. spec_uniformity_row x = Some r \<Longrightarrow> length r = 2"
    by (auto simp: spec_uniformity_row_def)
  from assms show ?thesis
    by (auto simp: spec_uniformity_block_def bind_eq_Some_conv split: option.splits
          dest!: those_map_pairs [OF _ row] spec_aggregate_pairs)
qed

lemma spec_mtf_block_pairs:
  assumes "spec_mtf_block data = Some rows"
  shows "\<forall>r \<in> set rows. length r = 2"
proof -
  have row: "\<And>x r. spec_mtf_row x = Some r \<Longrightarrow> length r = 2"
    by (auto simp: spec_mtf_row_def)
  from assms show ?thesis
    by (auto simp: spec_mtf_block_def bind_eq_Some_conv split: option.splits
          dest!: those_map_pairs [OF _ row])
qed

lemma spec_low_contrast_block_pairs:
  assumes "spec_low_contrast_block data = Some rows"
  shows "\<forall>r \<in> set rows. length r = 2"
proof -
  have row: "\<And>x r. spec_low_contrast_row x = Some r \<Longrightarrow> length r = 2"
    by (auto simp: spec_low_contrast_row_def)
  from assms show ?thesis
    by (auto simp: spec_low_contrast_block_def bind_eq_Some_conv split: option.splits
          dest!: those_map_pairs [OF _ row] spec_aggregate_pairs)
qed

lemma spec_summary_rows_blocks:
  assumes "spec_summary_rows phantom_type data = Some rows"
  shows "\<exists>label linearity uniformity mtf low_contrast.
           spec_phantom_label phantom_type = Some label \<and>
           spec_hu_linearity_block data = Some linearity \<and>
           spec_uniformity_block data = Some uniformity \<and>
           spec_mtf_block data = Some mtf \<and>
           spec_low_contrast_block data = Some low_contrast \<and>
           rows = [[''Phantom Type:'', label]] @ [blank_row] @ linearity @ [blank_row] @
                  uniformity @ [blank_row] @ mtf @ [blank_row] @ low_contrast"
  using assms by (auto simp: spec_summary_rows_def bind_eq_Some_conv)

lemma spec_summary_rows_pairs:
  assumes "spec_summary_rows phantom_type data = Some rows"
  shows "\<forall>r \<in> set rows. length r = 2"
proof -
  from spec_summary_rows_blocks [OF assms]
  obtain label linearity uniformity mtf low_contrast where
    blocks: "spec_hu_linearity_block data = Some linearity"
      "spec_uniformity_block data = Some uniformity"
      "spec_mtf_block data = Some mtf"
      "spec_low_contrast_block data = Some low_contrast"
    and rows: "rows = [[''Phantom Type:'', label]] @ [blank_row] @ linearity @ [blank_row] @
                  uniformity @ [blank_row] @ mtf @ [blank_row] @ low_contrast"
    by blast
  show ?thesis
    unfolding rows
    using spec_hu_linearity_block_pairs [OF blocks(1)] spec_uniformity_block_pairs [OF blocks(2)]
      spec_mtf_block_pairs [OF blocks(3)] spec_low_contrast_block_pairs [OF blocks(4)]
    by (auto simp: blank_row_def)
qed

text \<open>
  Claim C5. The result of a successful run carries the rows in the order the
  specification gives: the phantom type header, a blank row, the HU linearity block, a
  blank row, the uniformity block with its index, a blank row, the spatial-resolution
  block, a blank row, the low-contrast block with its visibility score; each block is
  the one the specification describes for the results object of the analysed phantom,
  and every row is a pair of label and value.
\<close>

theorem summary_rows_in_order:
  assumes "analyze env self = (self', emitted, raised)"
    and "Analysis_results_ready r \<in> set emitted"
  shows "\<exists>loaded phantom data label linearity uniformity mtf low_contrast.
           load_phantom env (wk_phantom_type self) (wk_path self) = Inr loaded \<and>
           phantom_analyze env loaded = Inr phantom \<and>
           call_method phantom ''results_data'' = Inr data \<and>
           spec_phantom_label (wk_phantom_type self) = Some label \<and>
           spec_hu_linearity_block data = Some linearity \<and>
           spec_uniformity_block data = Some uniformity \<and>
           spec_mtf_block data = Some mtf \<and>
           spec_low_contrast_block data = Some low_contrast \<and>
           summary_text r =
             [[''Phantom Type:'', label]] @ [blank_row] @ linearity @ [blank_row] @
             uniformity @ [blank_row] @ mtf @ [blank_row] @ low_contrast \<and>
           (\<forall>row \<in> set (summary_text r). length row = 2)"
proof -
  from analyze_result_emitted [OF assms]
  obtain loaded phantom data where
    run: "load_phantom env (wk_phantom_type self) (wk_path self) = Inr loaded"
      "phantom_analyze env loaded = Inr phantom"
      "call_method phantom ''results_data'' = Inr data"
    and built: "build_summary_text (wk_phantom_type self) data = Inr (summary_text r)"
    by blast
  from built have spec: "spec_summary_rows (wk_phantom_type self) data = Some (summary_text r)"
    by (simp add: build_summary_text_spec)
  from spec_summary_rows_blocks [OF spec] spec_summary_rows_pairs [OF spec] run
  show ?thesis by blast
qed

lemma analyze_sample:
  "analyze (env_with (phantom_with sample_data)) sample_worker =
     (sample_worker
        \<lparr>wk_phantom := Some (phantom_with sample_data),
         wk_ct_analysis :=
           Some (QCTAnalysis_init (env_with (phantom_with sample_data)) (phantom_with sample_data))\<rparr>,
      [Analysis_progress ''Loading CT dataset...'',
       Analysis_progress ''Analyzing CT dataset...'',
       Analysis_results_ready
         \<lparr>summary_text = sample_rows,
          ct_analysis_obj =
            QCTAnalysis_init (env_with (phantom_with sample_data)) (phantom_with sample_data)\<rparr>,
       Thread_finished],
      None)"
  by (simp add: analyze_env_with build_summary_text_sample)

theorem summary_rows_in_order_witness:
  "\<exists>loaded phantom data label linearity uniformity mtf low_contrast.
     load_phantom (env_with (phantom_with sample_data)) (wk_phantom_type sample_worker)
       (wk_path sample_worker) = Inr loaded \<and>
     phantom_analyze (env_with (phantom_with sample_data)) loaded = Inr phantom \<and>
     call_method phantom ''results_data'' = Inr data \<and>
     spec_phantom_label (wk_phantom_type sample_worker) = Some label \<and>
     spec_hu_linearity_block data = Some linearity \<and>
     spec_uniformity_block data = Some uniformity \<and>
     spec_mtf_block data = Some mtf \<and>
     spec_low_contrast_block data = Some low_contrast \<and>
     sample_rows =
       [[''Phantom Type:'', label]] @ [blank_row] @ linearity @ [blank_row] @
       uniformity @ [blank_row] @ mtf @ [blank_row] @ low_contrast \<and>
     (\<forall>row \<in> set sample_rows. length row = 2)"
  using summary_rows_in_order [OF analyze_sample, of
      "\<lparr>summary_text = sample_rows,
        ct_analysis_obj =
          QCTAnalysis_init (env_with (phantom_with sample_data)) (phantom_with sample_data)\<rparr>"]
  by simp

subsection \<open>Blank rows and absent groups\<close>

lemma absent_block_empty:
  "\<not> hasattr data ''hu_linearity'' \<Longrightarrow> spec_hu_linearity_block data = Some []"
  "\<not> hasattr data ''uniformity'' \<Longrightarrow> spec_uniformity_block data = Some []"
  "\<not> hasattr data ''mtf'' \<Longrightarrow> spec_mtf_block data = Some []"
  "\<not> hasattr data ''low_contrast'' \<Longrightarrow> spec_low_contrast_block data = Some []"
  by (simp_all add: hasattr_attr spec_hu_linearity_block_def spec_uniformity_block_def
        spec_mtf_block_def spec_low_contrast_block_def)

text \<open>
  Claim C10. The blank rows do not depend on which groups are present: whenever the
  summary is built, a blank row follows the header and one follows each of the
  linearity, uniformity and MTF positions, and the block of an absent group is empty.
  With all four groups absent the summary is the phantom type row and four blank rows.
\<close>

theorem blank_rows_unconditional:
  "(build_summary_text phantom_type data = Inr rows \<longrightarrow>
      (\<exists>label linearity uniformity mtf low_contrast.
         rows = [[''Phantom Type:'', label], ['''', '''']] @ linearity @ [['''', '''']] @
                uniformity @ [['''', '''']] @ mtf @ [['''', '''']] @ low_contrast \<and>
         spec_hu_linearity_block data = Some linearity \<and>
         spec_uniformity_block data = Some uniformity \<and>
         spec_mtf_block data = Some mtf \<and>
         spec_low_contrast_block data = Some low_contrast \<and>
         (\<not> hasattr data ''hu_linearity'' \<longrightarrow> linearity = []) \<and>
         (\<not> hasattr data ''uniformity'' \<longrightarrow> uniformity = []) \<and>
         (\<not> hasattr data ''mtf'' \<longrightarrow> mtf = []) \<and>
         (\<not> hasattr data ''low_contrast'' \<longrightarrow> low_contrast = []))) \<and>
   (\<not> hasattr data ''hu_linearity'' \<and> \<not> hasattr data ''uniformity'' \<and>
    \<not> hasattr data ''mtf'' \<and> \<not> hasattr data ''low_contrast'' \<longrightarrow>
      build_summary_text (Member k) data =
        Inr [[''Phantom Type:'', PHANTOM_value k],
             ['''', ''''], ['''', ''''], ['''', ''''], ['''', '''']])"
proof (intro conjI impI)
  assume "build_summary_text phantom_type data = Inr rows"
  then have "spec_summary_rows phantom_type data = Some rows"
    by (simp add: build_summary_text_spec)
  from spec_summary_rows_blocks [OF this]
  obtain label linearity uniformity mtf low_contrast where
    blocks: "spec_hu_linearity_block data = Some linearity"
      "spec_uniformity_block data = Some uniformity"
      "spec_mtf_block data = Some mtf"
      "spec_low_contrast_block data = Some low_contrast"
    and rows: "rows = [[''Phantom Type:'', label]] @ [blank_row] @ linearity @ [blank_row] @
                  uniformity @ [blank_row] @ mtf @ [blank_row] @ low_contrast"
    by blast
  have "rows = [[''Phantom Type:'', label], ['''', '''']] @ linearity @ [['''', '''']] @
                uniformity @ [['''', '''']] @ mtf @ [['''', '''']] @ low_contrast"
    using rows by (simp add: blank_row_def)
  moreover have "\<not> hasattr data ''hu_linearity'' \<longrightarrow> linearity = []"
    using blocks(1) absent_block_empty(1) [of data] by auto
  moreover have "\<not> hasattr data ''uniformity'' \<longrightarrow> uniformity = []"
    using blocks(2) absent_block_empty(2) [of data] by auto
  moreover have "\<not> hasattr data ''mtf'' \<longrightarrow> mtf = []"
    using blocks(3) absent_block_empty(3) [of data] by auto
  moreover have "\<not> hasattr data ''low_contrast'' \<longrightarrow> low_contrast = []"
    using blocks(4) absent_block_empty(4) [of data] by auto
  ultimately show "\<exists>label linearity uniformity mtf low_contrast.
         rows = [[''Phantom Type:'', label], ['''', '''']] @ linearity @ [['''', '''']] @
                uniformity @ [['''', '''']] @ mtf @ [['''', '''']] @ low_contrast \<and>
         spec_hu_linearity_block data = Some linearity \<and>
         spec_uniformity_block data = Some uniformity \<and>
         spec_mtf_block data = Some mtf \<and>
         spec_low_contrast_block data = Some low_contrast \<and>
         (\<not> hasattr data ''hu_linearity'' \<longrightarrow> linearity = []) \<and>
         (\<not> hasattr data ''uniformity'' \<longrightarrow> uniformity = []) \<and>
         (\<not> hasattr data ''mtf'' \<longrightarrow> mtf = []) \<and>
         (\<not> hasattr data ''low_contrast'' \<longrightarrow> low_contrast = [])"
    using blocks by blast
next
  assume "\<not> hasattr data ''hu_linearity'' \<and> \<not> hasattr data ''uniformity'' \<and>
    \<not> hasattr data ''mtf'' \<and> \<not> hasattr data ''low_contrast''"
  then show "build_summary_text (Member k) data =
        Inr [[''Phantom Type:'', PHANTOM_value k],
             ['''', ''''], ['''', ''''], ['''', ''''], ['''', '''']]"
    by (simp add: build_summary_text_def hu_linearity_block_def uniformity_block_def
          mtf_block_def low_contrast_block_def)
qed

theorem blank_rows_unconditional_witness:
  "\<not> hasattr bare_data ''hu_linearity'' \<and> \<not> hasattr bare_data ''uniformity'' \<and>
   \<not> hasattr bare_data ''mtf'' \<and> \<not> hasattr bare_data ''low_contrast'' \<and>
   build_summary_text (Member CATPHAN_504) bare_data =
     Inr [[''Phantom Type:'', ''CatPhan 504''],
          ['''', ''''], ['''', ''''], ['''', ''''], ['''', '''']] \<and>
   (\<exists>label linearity uniformity mtf low_contrast.
      [[''Phantom Type:'', ''CatPhan 504''], ['''', ''''], ['''', ''''], ['''', ''''], ['''', '''']] =
        [[''Phantom Type:'', label], ['''', '''']] @ linearity @ [['''', '''']] @
        uniformity @ [['''', '''']] @ mtf @ [['''', '''']] @ low_contrast \<and>
      spec_hu_linearity_block bare_data = Some linearity \<and>
      spec_uniformity_block bare_data = Some uniformity \<and>
      spec_mtf_block bare_data = Some mtf \<and>
      spec_low_contrast_block bare_data = Some low_contrast \<and>
      (\<not> hasattr bare_data ''hu_linearity'' \<longrightarrow> linearity = []) \<and>
      (\<not> hasattr bare_data ''uniformity'' \<longrightarrow> uniformity = []) \<and>
      (\<not> hasattr bare_data ''mtf'' \<longrightarrow> mtf = []) \<and>
      (\<not> hasattr bare_data ''low_contrast'' \<longrightarrow> low_contrast = []))"
proof -
  have absent: "\<not> hasattr bare_data ''hu_linearity'' \<and> \<not> hasattr bare_data ''uniformity'' \<and>
      \<not> hasattr bare_data ''mtf'' \<and> \<not> hasattr bare_data ''low_contrast''"
    by (simp add: hasattr_def bare_data_def)
  note inst = blank_rows_unconditional [of "Member CATPHAN_504" bare_data
      "[[''Phantom Type:'', ''CatPhan 504''], ['''', ''''], ['''', ''''], ['''', ''''], ['''', '''']]"
      CATPHAN_504]
  from inst absent have built: "build_summary_text (Member CATPHAN_504) bare_data =
     Inr [[''Phantom Type:'', ''CatPhan 504''],
          ['''', ''''], ['''', ''''], ['''', ''''], ['''', '''']]"
    by simp
  with inst absent show ?thesis by blast
qed

subsection \<open>Partially populated results objects\<close>

text \<open>
  Claim C4, as the specification states it, asks that a linearity entry without a
  nominal value does not abort the run. Line 290 reads \<^verbatim>\<open>values.nominal\<close> without a
  check: at a results object whose only group is a linearity entry \<^verbatim>\<open>Air\<close> with a
  \<^verbatim>\<open>value\<close> and no \<^verbatim>\<open>nominal\<close>, the run emits the failure signal with the
  AttributeError and no result.
\<close>

theorem missing_nominal_aborts_run:
  "snd (analyze (env_with (phantom_with missing_nominal_data)) sample_worker) =
     ([Analysis_progress ''Loading CT dataset...'',
       Analysis_progress ''Analyzing CT dataset...'',
       Analysis_failed
         (''AttributeError: '' @ quoted ''ROIResult'' @ '' object has no attribute '' @
          quoted ''nominal'' @ newline),
       Thread_finished],
      Some (AttributeError ''ROIResult'' ''nominal''))"
  by (simp add: analyze_env_with build_summary_text_missing_nominal)

lemma those_map_Some:
  "list_all (\<lambda>x. f x \<noteq> None) xs \<Longrightarrow> \<exists>rows. those (map f xs) = Some rows"
  by (induction xs) auto

lemma list_all_filter_mono:
  "list_all P xs \<Longrightarrow> (\<And>x. P x \<Longrightarrow> Q x \<Longrightarrow> R x) \<Longrightarrow> list_all R (filter Q xs)"
  by (induction xs) auto

lemma float_text_is_float: "is_float v \<Longrightarrow> float_text p v \<noteq> None"
  by (cases v) (auto simp: is_float_def float_text_def)

lemma float_attr_text:
  "float_attr obj a \<Longrightarrow> Option.bind (attr obj a) (float_text p) \<noteq> None"
  by (cases "getattr obj a")
     (auto simp: float_attr_def getattr_eq_Inr dest: float_text_is_float [of _ p])

lemma group_ok_items:
  assumes "group_ok entry_ok data g" and "attr data g = Some d"
  shows "\<exists>items. dict_items d = Some items \<and> list_all entry_ok items"
proof -
  from assms(2) have "getattr data g = Inr d"
    by (simp add: getattr_eq_Inr)
  with assms(1) show ?thesis
    by (cases d) (auto simp: group_ok_def dict_items_def)
qed

lemma aggregate_ok_spec:
  assumes "aggregate_ok data a"
  shows "\<exists>rows. spec_aggregate label p data a = Some rows"
proof (cases "attr data a")
  case None
  then show ?thesis by (simp add: spec_aggregate_def)
next
  case (Some v)
  then have "getattr data a = Inr v"
    by (simp add: getattr_eq_Inr)
  with assms have "is_float v"
    by (simp add: aggregate_ok_def)
  from float_text_is_float [OF this, of p] Some show ?thesis
    by (auto simp: spec_aggregate_def)
qed

lemma well_formed_linearity:
  assumes "group_ok linearity_entry_ok data ''hu_linearity''"
  shows "\<exists>rows. spec_hu_linearity_block data = Some rows"
proof (cases "attr data ''hu_linearity''")
  case None
  then show ?thesis by (simp add: spec_hu_linearity_block_def)
next
  case (Some d)
  from group_ok_items [OF assms Some] obtain items where
    items: "dict_items d = Some items" "list_all linearity_entry_ok items"
    by blast
  have "list_all (\<lambda>x. spec_linearity_row x \<noteq> None)
          (filter (\<lambda>entry. fst entry \<noteq> StrKey ''background'') items)"
  proof (rule list_all_filter_mono [OF items(2)])
    fix x :: "pykey \<times> pyval"
    assume "linearity_entry_ok x" and "fst x \<noteq> StrKey ''background''"
    then have "float_attr (snd x) ''value''" and "float_attr (snd x) ''nominal''"
      by (simp_all add: linearity_entry_ok_def)
    from float_attr_text [OF this(1), of 2] float_attr_text [OF this(2), of 2]
    show "spec_linearity_row x \<noteq> None"
      by (auto simp: spec_linearity_row_def)
  qed
  from those_map_Some [OF this] Some items(1) show ?thesis
    by (auto simp: spec_hu_linearity_block_def)
qed

lemma float_entries_rows:
  assumes "list_all float_entry_ok items"
    and "\<And>x. float_entry_ok x \<Longrightarrow> f x \<noteq> None"
  shows "\<exists>rows. those (map f items) = Some rows"
proof (rule those_map_Some)
  from assms(1) show "list_all (\<lambda>x. f x \<noteq> None) items"
  proof (induction items)
    case Nil
    show ?case by simp
  next
    case (Cons x items)
    then show ?case
      using assms(2) [of x] by simp
  qed
qed

lemma well_formed_uniformity:
  assumes "group_ok float_entry_ok data ''uniformity''"
    and "aggregate_ok data ''uniformity_index''"
  shows "\<exists>rows. spec_uniformity_block data = Some rows"
proof (cases "attr data ''uniformity''")
  case None
  then show ?thesis by (simp add: spec_uniformity_block_def)
next
  case (Some d)
  from group_ok_items [OF assms(1) Some] obtain items where
    items: "dict_items d = Some items" "list_all float_entry_ok items"
    by blast
  have "\<And>x. float_entry_ok x \<Longrightarrow> spec_uniformity_row x \<noteq> None"
    using float_text_is_float by (auto simp: float_entry_ok_def spec_uniformity_row_def)
  from float_entries_rows [of items spec_uniformity_row, OF items(2) this]
    aggregate_ok_spec [OF assms(2), of "''Uniformity Index:''" 2] Some items(1)
  show ?thesis
    by (auto simp: spec_uniformity_block_def)
qed

lemma well_formed_mtf:
  assumes "group_ok float_entry_ok data ''mtf''"
  shows "\<exists>rows. spec_mtf_block data = Some rows"
proof (cases "attr data ''mtf''")
  case None
  then show ?thesis by (simp add: spec_mtf_block_def)
next
  case (Some d)
  from group_ok_items [OF assms Some] obtain items where
    items: "dict_items d = Some items" "list_all float_entry_ok items"
    by blast
  have "\<And>x. float_entry_ok x \<Longrightarrow> spec_mtf_row x \<noteq> None"
    using float_text_is_float by (auto simp: float_entry_ok_def spec_mtf_row_def)
  from float_entries_rows [of items spec_mtf_row, OF items(2) this] Some items(1)
  show ?thesis
    by (auto simp: spec_mtf_block_def)
qed

lemma enumerate_floats:
  "list_all is_float vs \<Longrightarrow> list_all (\<lambda>x. spec_low_contrast_row x \<noteq> None) (enumerate n vs)"
  using float_text_is_float
  by (induction vs arbitrary: n) (auto simp: spec_low_contrast_row_def)

lemma well_formed_low_contrast:
  assumes "group_ok float_entry_ok data ''low_contrast''"
    and "aggregate_ok data ''low_contrast_visibility''"
  shows "\<exists>rows. spec_low_contrast_block data = Some rows"
proof (cases "attr data ''low_contrast''")
  case None
  then show ?thesis by (simp add: spec_low_contrast_block_def)
next
  case (Some d)
  from group_ok_items [OF assms(1) Some] obtain items where
    items: "dict_items d = Some items" "list_all float_entry_ok items"
    by blast
  from items(2) have "list_all is_float (map snd items)"
    by (induction items) (auto simp: float_entry_ok_def)
  from those_map_Some [OF enumerate_floats [OF this, of 1]]
    aggregate_ok_spec [OF assms(2), of "''Low Contrast Visibility:''" 4] Some items(1)
  show ?thesis
    by (auto simp: spec_low_contrast_block_def)
qed

lemma well_formed_builds:
  assumes "well_formed data"
  shows "\<exists>rows. build_summary_text (Member k) data = Inr rows"
proof -
  from assms obtain linearity uniformity mtf low_contrast where
    "spec_hu_linearity_block data = Some linearity"
    "spec_uniformity_block data = Some uniformity"
    "spec_mtf_block data = Some mtf"
    "spec_low_contrast_block data = Some low_contrast"
    using well_formed_linearity [of data] well_formed_uniformity [of data]
      well_formed_mtf [of data] well_formed_low_contrast [of data]
    by (auto simp: well_formed_def)
  then have "\<exists>rows. spec_summary_rows (Member k) data = Some rows"
    by (simp add: spec_summary_rows_def spec_phantom_label_def)
  then show ?thesis
    by (simp add: build_summary_text_spec)
qed

text \<open>
  Claim C4, amended. Building the summary rows adds nothing for a field group that is
  absent, and a run on a well-formed results object is not aborted: when every group
  that is present is a dictionary of floats (of objects with float \<^verbatim>\<open>value\<close> and
  \<^verbatim>\<open>nominal\<close> for the materials of the linearity group), and every aggregate that is
  present is a float, the run of a worker for an enumeration member emits the result.
  In particular a uniformity group without \<^verbatim>\<open>uniformity_index\<close> does not abort it.
\<close>

theorem absent_groups_omitted_well_formed_builds:
  "(\<not> hasattr data ''hu_linearity'' \<longrightarrow> hu_linearity_block data st = Inr st) \<and>
   (\<not> hasattr data ''uniformity'' \<longrightarrow> uniformity_block data st = Inr st) \<and>
   (\<not> hasattr data ''mtf'' \<longrightarrow> mtf_block data st = Inr st) \<and>
   (\<not> hasattr data ''low_contrast'' \<longrightarrow> low_contrast_block data st = Inr st) \<and>
   (well_formed data \<and> wk_phantom_type self = Member k \<and>
    load_phantom env (wk_phantom_type self) (wk_path self) = Inr loaded \<and>
    phantom_analyze env loaded = Inr phantom \<and>
    call_method phantom ''results_data'' = Inr data \<longrightarrow>
      (\<exists>self' rows.
         analyze env self =
           (self',
            [Analysis_progress ''Loading CT dataset...'',
             Analysis_progress ''Analyzing CT dataset...'',
             Analysis_results_ready
               \<lparr>summary_text = rows, ct_analysis_obj = QCTAnalysis_init env phantom\<rparr>,
             Thread_finished],
            None)))"
proof (intro conjI impI)
  assume run: "well_formed data \<and> wk_phantom_type self = Member k \<and>
    load_phantom env (wk_phantom_type self) (wk_path self) = Inr loaded \<and>
    phantom_analyze env loaded = Inr phantom \<and>
    call_method phantom ''results_data'' = Inr data"
  then obtain rows where built: "build_summary_text (Member k) data = Inr rows"
    using well_formed_builds [of data k] by blast
  from run have steps: "wk_phantom_type self = Member k"
    "load_phantom env (Member k) (wk_path self) = Inr loaded"
    "phantom_analyze env loaded = Inr phantom"
    "call_method phantom ''results_data'' = Inr data"
    by auto
  from steps built show "\<exists>self' rows.
         analyze env self =
           (self',
            [Analysis_progress ''Loading CT dataset...'',
             Analysis_progress ''Analyzing CT dataset...'',
             Analysis_results_ready
               \<lparr>summary_text = rows, ct_analysis_obj = QCTAnalysis_init env phantom\<rparr>,
             Thread_finished],
            None)"
    by (simp add: analyze_def analyze_try_def)
qed (simp_all add: hu_linearity_block_def uniformity_block_def mtf_block_def
       low_contrast_block_def)

lemma well_formed_partial_data: "well_formed partial_data"
  by (simp add: well_formed_def group_ok_def aggregate_ok_def float_entry_ok_def is_float_def
        partial_data_def)

theorem absent_groups_omitted_well_formed_builds_witness:
  "\<not> hasattr partial_data ''hu_linearity'' \<and>
   hu_linearity_block partial_data [] = Inr [] \<and>
   \<not> hasattr partial_data ''low_contrast'' \<and>
   low_contrast_block partial_data [] = Inr [] \<and>
   hasattr partial_data ''uniformity'' \<and>
   \<not> hasattr partial_data ''uniformity_index'' \<and>
   well_formed partial_data \<and>
   (\<exists>self' rows.
      analyze (env_with (phantom_with partial_data)) sample_worker =
        (self',
         [Analysis_progress ''Loading CT dataset...'',
          Analysis_progress ''Analyzing CT dataset...'',
          Analysis_results_ready
            \<lparr>summary_text = rows,
             ct_analysis_obj =
               QCTAnalysis_init (env_with (phantom_with partial_data)) (phantom_with partial_data)\<rparr>,
          Thread_finished],
         None))"
proof -
  have absent: "\<not> hasattr partial_data ''hu_linearity''" "\<not> hasattr partial_data ''low_contrast''"
    "hasattr partial_data ''uniformity''" "\<not> hasattr partial_data ''uniformity_index''"
    by (simp_all add: hasattr_def partial_data_def)
  have run: "wk_phantom_type sample_worker = Member CATPHAN_504"
    "load_phantom (env_with (phantom_with partial_data)) (wk_phantom_type sample_worker)
       (wk_path sample_worker) = Inr (phantom_with partial_data)"
    "phantom_analyze (env_with (phantom_with partial_data)) (phantom_with partial_data) =
       Inr (phantom_with partial_data)"
    "call_method (phantom_with partial_data) ''results_data'' = Inr partial_data"
    by (simp_all add: sample_worker_def QCTAnalysisWorker_init_def load_phantom_def resolve_def env_with_def
          call_method_def phantom_with_def)
  from absent_groups_omitted_well_formed_builds [of partial_data "[]" sample_worker CATPHAN_504
      "env_with (phantom_with partial_data)" "phantom_with partial_data" "phantom_with partial_data"]
    absent run well_formed_partial_data
  show ?thesis by blast
qed

subsection \<open>Fixed precision\<close>

lemma digit_char_digit: "d < 10 \<Longrightarrow> digit_char d \<in> set ''0123456789''"
  unfolding digit_char_def by (rule nth_mem) simp

lemma str_nat_digits: "set (str_nat n) \<subseteq> set ''0123456789''"
proof (induction n rule: str_nat.induct)
  case (1 n)
  show ?case
  proof (cases "n < 10")
    case True
    then show ?thesis
      using digit_char_digit [of n] by (subst str_nat.simps) simp
  next
    case False
    have "n mod 10 < 10" by simp
    from digit_char_digit [OF this] "1.IH" [OF False] False show ?thesis
      by (subst str_nat.simps) simp
  qed
qed

lemma length_str_nat: "0 < p \<Longrightarrow> n < 10 ^ p \<Longrightarrow> length (str_nat n) \<le> p"
proof (induction n arbitrary: p rule: str_nat.induct)
  case (1 n)
  show ?case
  proof (cases "n < 10")
    case True
    with "1.prems" show ?thesis
      by (subst str_nat.simps) simp
  next
    case False
    from "1.prems" obtain q where p: "p = Suc q"
      by (cases p) auto
    with False "1.prems" have "0 < q"
      by (cases q) auto
    moreover from "1.prems" p have "n div 10 < 10 ^ q"
      by (simp add: less_mult_imp_div_less mult.commute)
    ultimately have "length (str_nat (n div 10)) \<le> q"
      using "1.IH" [OF False] by blast
    with False p show ?thesis
      by (subst str_nat.simps) simp
  qed
qed

lemma length_zero_pad: "length s \<le> w \<Longrightarrow> length (zero_pad w s) = w"
  by (simp add: zero_pad_def)

lemma zero_pad_digits: "set s \<subseteq> set ''0123456789'' \<Longrightarrow> set (zero_pad w s) \<subseteq> set ''0123456789''"
  by (auto simp: zero_pad_def)

lemma no_point_before:
  "dropWhile (\<lambda>c. c \<noteq> CHR ''.'') (sign_str s @ str_nat n @ rest) =
   dropWhile (\<lambda>c. c \<noteq> CHR ''.'') rest"
proof -
  have "\<And>c. c \<in> set (sign_str s @ str_nat n) \<Longrightarrow> c \<noteq> CHR ''.''"
    using str_nat_digits [of n] by (auto simp: sign_str_def)
  then have "dropWhile (\<lambda>c. c \<noteq> CHR ''.'') ((sign_str s @ str_nat n) @ rest) =
      dropWhile (\<lambda>c. c \<noteq> CHR ''.'') rest"
    by (rule dropWhile_append2)
  then show ?thesis by simp
qed

lemma fraction_digits_format_f:
  "fraction_digits (format_f p (Finite s m e)) =
     (if p = 0 then [] else zero_pad p (str_nat (scaled p m e mod 10 ^ p)))"
  by (simp add: fraction_digits_def Let_def no_point_before del: append_assoc)

lemma fraction_digits_length: "length (fraction_digits (format_f p (Finite s m e))) = p"
proof (cases "p = 0")
  case True
  then show ?thesis by (simp add: fraction_digits_format_f del: format_f.simps)
next
  case False
  then have "length (str_nat (scaled p m e mod 10 ^ p)) \<le> p"
    by (intro length_str_nat) simp_all
  with False show ?thesis
    by (simp add: fraction_digits_format_f length_zero_pad del: format_f.simps)
qed

lemma fraction_digits_digits:
  "set (fraction_digits (format_f p (Finite s m e))) \<subseteq> set ''0123456789''"
  using zero_pad_digits [OF str_nat_digits, of p "scaled p m e mod 10 ^ p"]
  by (simp add: fraction_digits_format_f del: format_f.simps)

text \<open>
  The rounding is to the nearest multiple of \<open>10^-p\<close>: for a negative exponent the
  scaled integer times \<open>2^-e\<close> differs from \<open>m * 10^p\<close> by at most half of \<open>2^-e\<close>.
\<close>

lemma round_half_even_nearest:
  assumes "0 < d"
  shows "2 * (round_half_even n d * d - n) \<le> d \<and> 2 * (n - round_half_even n d * d) \<le> d"
proof -
  define q where "q = n div d"
  define r where "r = n mod d"
  have n: "n = q * d + r"
    by (simp add: q_def r_def)
  have r: "r < d"
    using assms by (simp add: r_def)
  have up: "(q + 1) * d - n = d - r"
    by (simp add: n)
  have down: "n - q * d = r"
    by (simp add: n)
  have less: "(q + 1) * d \<ge> n" "q * d \<le> n"
    using r by (simp_all add: n)
  consider "round_half_even n d = q" "2 * r \<le> d" | "round_half_even n d = q + 1" "d \<le> 2 * r"
    unfolding round_half_even_def Let_def q_def [symmetric] r_def [symmetric]
    by (cases "2 * r < d"; cases "d < 2 * r"; cases "even q") auto
  then show ?thesis
  proof cases
    case 1
    with down less show ?thesis by simp
  next
    case 2
    with up less r show ?thesis by simp
  qed
qed

text \<open>
  Claim C7. A finite float is rendered with exactly \<open>p\<close> decimal digits after the
  point; the summary formats HU and lp/mm values (linearity value and nominal,
  uniformity values and index, MTF values) with 2 decimals and contrast values
  (low-contrast values and visibility) with 4. The double \<^verbatim>\<open>-998.6\<close> renders as
  \<^verbatim>\<open>-998.60 HU\<close> and the double \<^verbatim>\<open>0.1234567\<close> as \<^verbatim>\<open>0.1235\<close>.
\<close>

theorem summary_values_fixed_precision:
  "length (fraction_digits (format_f p (Finite s m e))) = p \<and>
   set (fraction_digits (format_f p (Finite s m e))) \<subseteq> set ''0123456789'' \<and>
   hu_linearity_loop
     [(StrKey ''Air'', PyObject cls [(''value'', PyFloat v), (''nominal'', PyFloat n)])] [] =
     Inr [[''  Air:'', format_f 2 v @ '' HU (Expected: '' @ format_f 2 n @ '' HU)'']] \<and>
   uniformity_loop [(position, PyFloat v)] [] =
     Inr [[''  '' @ key_str position @ '':'', format_f 2 v @ '' HU'']] \<and>
   uniformity_block (PyObject cls [(''uniformity'', PyDict []), (''uniformity_index'', PyFloat v)]) [] =
     Inr [[''HU Uniformity:'', ''''], [''Uniformity Index:'', format_f 2 v]] \<and>
   mtf_loop [(percent, PyFloat v)] [] =
     Inr [[''  MTF '' @ key_str percent @ ''%:'', format_f 2 v @ '' lp/mm'']] \<and>
   low_contrast_loop 0 [PyFloat v] [] = Inr [[''  ROI 1:'', format_f 4 v]] \<and>
   low_contrast_block
     (PyObject cls [(''low_contrast'', PyDict []), (''low_contrast_visibility'', PyFloat v)]) [] =
     Inr [[''Low Contrast:'', ''''], [''Low Contrast Visibility:'', format_f 4 v]] \<and>
   format_f 2 minus_998_6 @ '' HU'' = ''-998.60 HU'' \<and>
   format_f 4 contrast_0_1234567 = ''0.1235''"
proof (intro conjI)
  show "length (fraction_digits (format_f p (Finite s m e))) = p"
    by (rule fraction_digits_length)
  show "set (fraction_digits (format_f p (Finite s m e))) \<subseteq> set ''0123456789''"
    by (rule fraction_digits_digits)
  show "hu_linearity_loop
     [(StrKey ''Air'', PyObject cls [(''value'', PyFloat v), (''nominal'', PyFloat n)])] [] =
     Inr [[''  Air:'', format_f 2 v @ '' HU (Expected: '' @ format_f 2 n @ '' HU)'']]"
    by simp
  show "uniformity_loop [(position, PyFloat v)] [] =
     Inr [[''  '' @ key_str position @ '':'', format_f 2 v @ '' HU'']]"
    by simp
  show "uniformity_block (PyObject cls [(''uniformity'', PyDict []), (''uniformity_index'', PyFloat v)]) [] =
     Inr [[''HU Uniformity:'', ''''], [''Uniformity Index:'', format_f 2 v]]"
    by (simp add: uniformity_block_def hasattr_def)
  show "mtf_loop [(percent, PyFloat v)] [] =
     Inr [[''  MTF '' @ key_str percent @ ''%:'', format_f 2 v @ '' lp/mm'']]"
    by simp
  show "low_contrast_loop 0 [PyFloat v] [] = Inr [[''  ROI 1:'', format_f 4 v]]"
    by (simp add: str_nat.simps digit_char_def)
  show "low_contrast_block
     (PyObject cls [(''low_contrast'', PyDict []), (''low_contrast_visibility'', PyFloat v)]) [] =
     Inr [[''Low Contrast:'', ''''], [''Low Contrast Visibility:'', format_f 4 v]]"
    by (simp add: low_contrast_block_def hasattr_def)
  show "format_f 2 minus_998_6 @ '' HU'' = ''-998.60 HU''"
    by (simp add: sample_formats)
  show "format_f 4 contrast_0_1234567 = ''0.1235''"
    by (simp add: sample_formats)
qed

theorem summary_values_fixed_precision_witness:
  "length (fraction_digits ''-998.60'') = 2 \<and>
   hu_linearity_loop
     [(StrKey ''Air'',
       PyObject ''ROIResult''
         [(''value'', PyFloat minus_998_6), (''nominal'', PyFloat (Finite True 1000 0))])] [] =
     Inr [[''  Air:'', ''-998.60 HU (Expected: -1000.00 HU)'']] \<and>
   low_contrast_loop 0 [PyFloat contrast_0_1234567] [] = Inr [[''  ROI 1:'', ''0.1235'']]"
proof -
  have rendered: "format_f 2 (Finite True 8783778491976909 (- 43)) = ''-998.60''"
    using sample_formats(1) by (simp only: minus_998_6_def)
  from summary_values_fixed_precision [of 2 True 8783778491976909 "- 43" "''ROIResult''"
      minus_998_6 "Finite True 1000 0" "StrKey ''Top''" "ObjKey ''int'' ''50''"]
    summary_values_fixed_precision [of 4 False 4447996384931129 "- 55" "''ROIResult''"
      contrast_0_1234567 "Finite True 1000 0" "StrKey ''Top''" "ObjKey ''int'' ''50''"]
  show ?thesis
    by (simp add: sample_formats rendered del: format_f.simps)
qed

subsection \<open>Report images\<close>

lemma uniformity_mtf_phantom_modules:
  "hasattr uniformity_mtf_phantom ''ctp486''"
  "hasattr uniformity_mtf_phantom ''ctp528''"
  "\<not> hasattr uniformity_mtf_phantom ''ctp404''"
  "\<not> hasattr uniformity_mtf_phantom ''ctp515''"
  by (simp_all add: hasattr_def uniformity_mtf_phantom_def)

text \<open>
  Claim C3 asks for two report images, uniformity then MTF, on a phantom with only
  those two modules, and for no error. \<^verbatim>\<open>get_publishable_plots\<close> binds its local
  \<^verbatim>\<open>plt\<close> only inside the \<^verbatim>\<open>ctp404\<close> branch (line 169); on this phantom the branch is
  skipped and the uniformity branch reads \<^verbatim>\<open>plt\<close> unbound: the call raises
  UnboundLocalError and returns no image.
\<close>

theorem publishable_plots_raise_without_ctp404:
  "hasattr uniformity_mtf_phantom ''ctp486'' \<and>
   hasattr uniformity_mtf_phantom ''ctp528'' \<and>
   \<not> hasattr uniformity_mtf_phantom ''ctp404'' \<and>
   \<not> hasattr uniformity_mtf_phantom ''ctp515'' \<and>
   get_publishable_plots
     \<lparr>qa_phantom = uniformity_mtf_phantom, analyzed_image_plot_widget = Some []\<rparr> =
     Inl (UnboundLocalError ''plt'')"
  by (simp add: uniformity_mtf_phantom_modules get_publishable_plots_def publish_ctp404_def
        publish_ctp486_def read_plt_def)

text \<open>
  On that phantom the interactive path draws the uniformity and the MTF plot, in that
  order, and leaves the other two plots empty.
\<close>

lemma qplot_uniformity_mtf_phantom:
  "snd (qplot_analyzed_image env
         \<lparr>qa_phantom = uniformity_mtf_phantom, analyzed_image_plot_widget = Some []\<rparr>) = None"
  "HAS_PYQTGRAPH env \<Longrightarrow>
   populated_plots
     (fst (qplot_analyzed_image env
            \<lparr>qa_phantom = uniformity_mtf_phantom, analyzed_image_plot_widget = Some []\<rparr>)) =
     [''Uniformity_Plot'', ''MTF_Plot'']"
  by (simp_all add: qplot_analyzed_image_def qplot_ctp404_def qplot_ctp486_def qplot_ctp528_def
        qplot_ctp515_def uniformity_mtf_phantom_def sample_ctp486_def sample_ctp528_def
        hasattr_def addPlot_def populated_plots_def Let_def)

text \<open>
  The same holds of every phantom without \<^verbatim>\<open>ctp404\<close> that has the uniformity module,
  whereas with all four modules the four images come out in module order.
\<close>

lemma publishable_plots_need_ctp404:
  assumes "\<not> hasattr (qa_phantom self) ''ctp404''" and "hasattr (qa_phantom self) ''ctp486''"
  shows "get_publishable_plots self = Inl (UnboundLocalError ''plt'')"
  using assms
  by (simp add: get_publishable_plots_def publish_ctp404_def publish_ctp486_def read_plt_def)

lemma lower_15:
  "lower_char (CHR ''B'') = CHR ''b''" "lower_char (CHR ''G'') = CHR ''g''"
  "lower_char (CHR '' '') = CHR '' ''" "lower_char (CHR ''1'') = CHR ''1''"
  "lower_char (CHR ''5'') = CHR ''5''"
  by (simp_all add: lower_char_def)

lemma publishable_plots_analysed_phantom:
  "get_publishable_plots (QCTAnalysis_init env analysed_phantom) =
     Inr [LinearityPdf,
          UniformityPdf [StrKey ''Top'', StrKey ''Center'']
            [PyFloat (Finite False 25 (- 1)), PyFloat (Finite False 10 0)],
          MtfPdf,
          LowContrastPdf [StrKey ''15''] [PyFloat contrast_0_1234567]]"
  by (simp add: get_publishable_plots_def publish_ctp404_def publish_ctp486_def
        publish_ctp528_def publish_ctp515_def read_plt_def QCTAnalysis_init_def hasattr_def
        call_method_def analysed_phantom_def sample_ctp404_def sample_ctp486_def
        sample_ctp528_def sample_ctp515_def lower_15)

section \<open>Properties of the worksheet\<close>



subsection \<open>The table of the report\<close>

lemma summary_table_loop_pairs:
  "\<forall>row \<in> set rows. length row = 2 \<Longrightarrow> summary_table_loop rows table = table @ rows"
  by (induction rows arbitrary: table) simp_all

lemma analyze_rows_pairs:
  assumes "analyze env self = (self', emitted, raised)"
    and "Analysis_results_ready r \<in> set emitted"
  shows "\<forall>row \<in> set (summary_text r). length row = 2"
proof -
  from analyze_result_emitted [OF assms] obtain data where
    "build_summary_text (wk_phantom_type self) data = Inr (summary_text r)"
    by blast
  then have "spec_summary_rows (wk_phantom_type self) data = Some (summary_text r)"
    by (simp add: build_summary_text_spec)
  then show ?thesis
    by (rule spec_summary_rows_pairs)
qed

lemma add_images_loop_tables:
  "report_tables (add_images_loop i plots report) = report_tables report"
  by (induction plots arbitrary: i report) (simp_all add: add_image_def)

lemma generate_report_saved:
  assumes "report_saved (generate_report desk self) = Some (path, report)"
  shows "\<exists>dataset others cached.
           selected_dataset self = dataset # others \<and>
           analysis_data dataset = Some cached \<and>
           report_tables report =
             [(''Analysis Results'', summary_table_loop (summary_text cached) [])]"
  using assms
  by (auto simp: generate_report_def nothing_done_def Let_def add_images_loop_tables
        add_table_def SimpleReport_init_def
      split: list.splits option.splits sum.splits if_splits)

text \<open>
  A report is saved whenever a dataset with a cached result is selected, the dialog
  returns a path, the report images can be made and the file can be written.
\<close>

lemma generate_report_saves:
  assumes "selected_dataset self = dataset # others"
    and "analysis_data dataset = Some cached"
    and "getSaveFileName desk \<noteq> []"
    and "get_publishable_plots (ct_analysis_obj cached) = Inr plot_images"
    and "save_raises desk (getSaveFileName desk) = None"
  shows "\<exists>report. report_saved (generate_report desk self) = Some (getSaveFileName desk, report)"
  using assms
  by (cases "open_report (platform_system desk) (getSaveFileName desk)")
     (simp_all add: generate_report_def Let_def)

text \<open>
  Claim C9. When \<^verbatim>\<open>generate_report\<close> saves a report for a dataset whose cached result
  was emitted by a run of the worker, the rows it hands to \<^verbatim>\<open>add_table\<close> are the cached
  summary rows, and the table read back from the saved report is the one table
  \<^verbatim>\<open>Analysis Results\<close> with those rows: the same rows in the same order, none added,
  dropped or changed.
\<close>

theorem report_table_is_cached_summary:
  assumes "analyze env worker = (worker', emitted, raised)"
    and "Analysis_results_ready r \<in> set emitted"
    and "selected_dataset self = dataset # others"
    and "analysis_data dataset = Some r"
    and "report_saved (generate_report desk self) = Some (path, report)"
  shows "summary_table_loop (summary_text r) [] = summary_text r \<and>
         report_tables report = [(''Analysis Results'', summary_text r)]"
proof -
  from generate_report_saved [OF assms(5)] assms(3,4)
  have "report_tables report = [(''Analysis Results'', summary_table_loop (summary_text r) [])]"
    by auto
  with summary_table_loop_pairs [OF analyze_rows_pairs [OF assms(1,2)], of "[]"]
  show ?thesis by simp
qed

lemma analysed_phantom_results_data: "call_method analysed_phantom ''results_data'' = Inr sample_data"
  by (simp add: call_method_def analysed_phantom_def)

lemma analyze_analysed_phantom:
  "analyze (env_with analysed_phantom) sample_worker =
     (sample_worker
        \<lparr>wk_phantom := Some analysed_phantom,
         wk_ct_analysis := Some (QCTAnalysis_init (env_with analysed_phantom) analysed_phantom)\<rparr>,
      [Analysis_progress ''Loading CT dataset...'',
       Analysis_progress ''Analyzing CT dataset...'',
       Analysis_results_ready sample_results,
       Thread_finished],
      None)"
  by (simp add: analyze_def analyze_try_def load_phantom_def resolve_def env_with_def sample_worker_def
        QCTAnalysisWorker_init_def analysed_phantom_results_data build_summary_text_sample
        sample_results_def)

lemma generate_sample_report:
  "report_saved (generate_report sample_desktop sample_worksheet) = Some (''report.pdf'', sample_report)"
  by (simp add: generate_report_def sample_desktop_def sample_worksheet_def sample_dataset_def
        sample_results_def publishable_plots_analysed_phantom open_report_def add_table_def Let_def
        add_image_def SimpleReport_init_def sample_report_def sample_rows_def
        str_nat.simps digit_char_def)

theorem report_table_is_cached_summary_witness:
  "report_saved (generate_report sample_desktop sample_worksheet) =
     Some (''report.pdf'', sample_report) \<and>
   summary_table_loop (summary_text sample_results) [] = summary_text sample_results \<and>
   report_tables sample_report = [(''Analysis Results'', summary_text sample_results)]"
proof -
  have emitted: "Analysis_results_ready sample_results \<in>
      set [Analysis_progress ''Loading CT dataset...'',
           Analysis_progress ''Analyzing CT dataset...'',
           Analysis_results_ready sample_results,
           Thread_finished]"
    by simp
  have selected: "selected_dataset sample_worksheet = sample_dataset # []"
    by (simp add: sample_worksheet_def)
  have cached: "analysis_data sample_dataset = Some sample_results"
    by (simp add: sample_dataset_def)
  from report_table_is_cached_summary
    [OF analyze_analysed_phantom emitted selected cached generate_sample_report]
    generate_sample_report
  show ?thesis by simp
qed

end
